theory Spec2Isabelle
  imports Complex_Main "HOL-Library.Monad_Syntax"
begin

section \<open>The geodesic-dome client: src/static/visualisation.js\<close>

text \<open>
  The module keeps its state in top-level variables (\<open>intersectedFace\<close>,
  \<open>intersectedPoint\<close>, \<open>cacheVertices\<close>, \<open>cacheIndices\<close>, \<open>mesh\<close>, \<open>line\<close>,
  \<open>points\<close>, \<open>params\<close>, \<open>scene\<close>). The model threads one record of these through
  every handler. The three.js objects are mutable and shared (an intersection record
  keeps a reference to the object it hit, also after that object has been replaced), so
  they live in a store addressed by references. A JavaScript \<open>TypeError\<close> is the
  value \<open>None\<close>. Numbers are rationals; the rounding of 32-bit floats is left out.
\<close>

subsection \<open>Numbers, colours and buffer attributes\<close>

text \<open>A JavaScript number held in a \<open>Float32Array\<close>: a value or \<open>NaN\<close>.\<close>

datatype jsnum = Num rat | NaN

text \<open>\<open>x * 50\<close>; reading past the end of an array gives \<open>undefined\<close>, and
  \<open>undefined * 50\<close> is \<open>NaN\<close>.\<close>

fun times50 :: "rat option \<Rightarrow> jsnum" where
  "times50 (Some x) = Num (x * 50)"
| "times50 None = NaN"

text \<open>\<open>THREE.Color\<close>: the components \<open>r\<close>, \<open>g\<close>, \<open>b\<close>. The three colours the
  program uses are \<open>"white"\<close>, \<open>"red"\<close> and \<open>0x0080ff\<close>; their components are taken
  from the names and the hex value (three.js's conversion between colour spaces is left
  out: the handlers only copy the components).\<close>

type_synonym color = "jsnum \<times> jsnum \<times> jsnum"

definition Color_white :: color where
  "Color_white = (Num 1, Num 1, Num 1)"

definition Color_red :: color where
  "Color_red = (Num 1, Num 0, Num 0)"

definition Color_0x0080ff :: color where
  "Color_0x0080ff = (Num 0, Num (128 / 255), Num 1)"

text \<open>\<open>THREE.BufferAttribute\<close>: a flat typed array read in groups of \<open>itemSize\<close>;
  \<open>version\<close> counts the assignments \<open>needsUpdate = true\<close>.\<close>

record 'a BufferAttribute =
  array :: "'a list"
  itemSize :: nat
  version :: nat

definition count :: "'a BufferAttribute \<Rightarrow> nat" where
  "count attr = length (array attr) div itemSize attr"

text \<open>\<open>a * n\<close> and \<open>a + n\<close> on numbers: \<open>NaN\<close> stays \<open>NaN\<close>. The arithmetic is
  exact. On integers this is what JavaScript computes. A fraction stands for the double
  nearest to it: in JavaScript \<open>0.3333333333333333 * 3\<close> is exactly \<open>1\<close>, as
  \<open>1/3 * 3\<close> is here. An integer too large for a double is rounded by JavaScript to
  one that is as far outside every array as the integer itself.\<close>

fun js_times :: "jsnum \<Rightarrow> rat \<Rightarrow> jsnum" where
  "js_times (Num a) n = Num (a * n)"
| "js_times NaN n = NaN"

fun js_plus :: "jsnum \<Rightarrow> rat \<Rightarrow> jsnum" where
  "js_plus (Num a) n = Num (a + n)"
| "js_plus NaN n = NaN"

text \<open>A store \<open>array[i] = v\<close> into a typed array: it happens when \<open>i\<close> is an integer
  with \<open>0 \<le> i < array.length\<close>, and is ignored otherwise (a negative, fractional or
  too large \<open>i\<close>, or \<open>NaN\<close>).\<close>

fun typed_set :: "jsnum \<Rightarrow> 'a \<Rightarrow> 'a list \<Rightarrow> 'a list" where
  "typed_set (Num i) v xs =
     (if of_int \<lfloor>i\<rfloor> = i \<and> 0 \<le> i \<and> i < of_nat (length xs) then xs[nat \<lfloor>i\<rfloor> := v] else xs)"
| "typed_set NaN v xs = xs"

text \<open>\<open>BufferAttribute.setXYZ(index, x, y, z)\<close>: \<open>index *= this.itemSize\<close>, then three
  stores at \<open>index + 0\<close>, \<open>index + 1\<close> and \<open>index + 2\<close>. The index is whatever number
  the caller passes; nothing checks that it is an integer or in range.\<close>

definition setXYZ :: "jsnum \<Rightarrow> color \<Rightarrow> jsnum BufferAttribute \<Rightarrow> jsnum BufferAttribute" where
  "setXYZ idx col attr =
     (case col of (x, y, z) \<Rightarrow>
        let i = js_times idx (of_nat (itemSize attr)) in
        attr\<lparr>array := typed_set (js_plus i 2) z (typed_set (js_plus i 1) y
          (typed_set (js_plus i 0) x (array attr)))\<rparr>)"

text \<open>An integer as a JavaScript number.\<close>

definition js_int :: "int \<Rightarrow> jsnum" where
  "js_int i = Num (of_int i)"

text \<open>\<open>attr.needsUpdate = true\<close>.\<close>

definition needsUpdate_true :: "'a BufferAttribute \<Rightarrow> 'a BufferAttribute" where
  "needsUpdate_true attr = attr\<lparr>version := Suc (version attr)\<rparr>"

text \<open>The colour of vertex \<open>j\<close>: the three components of its slot.\<close>

definition getXYZ :: "nat \<Rightarrow> jsnum BufferAttribute \<Rightarrow> color" where
  "getXYZ j attr = (array attr ! (j * itemSize attr), array attr ! (j * itemSize attr + 1),
     array attr ! (j * itemSize attr + 2))"

subsection \<open>Geometries and scene objects\<close>

text \<open>\<open>THREE.BufferGeometry\<close> as \<open>createGeometry\<close> and \<open>createPoints\<close> fill it: the
  array handed to \<open>setIndex\<close> (an entry read past the end of the response is
  \<open>undefined\<close>, here \<open>None\<close>), the position and colour attributes, and whether
  \<open>dispose()\<close> has been called.\<close>

record BufferGeometry =
  index_array :: "int option list"
  position :: "jsnum BufferAttribute"
  color :: "jsnum BufferAttribute"
  disposed :: bool

text \<open>\<open>THREE.WireframeGeometry(geometry)\<close>: the edges of a geometry. Only the
  geometry it was derived from is recorded.\<close>

record WireframeGeometry =
  wireframe_of :: BufferGeometry
  wireframe_disposed :: bool

type_synonym ref = nat

datatype Object3D =
    PerspectiveCamera
  | Mesh BufferGeometry
  | LineSegments WireframeGeometry
  | Points BufferGeometry rat

text \<open>\<open>object.type\<close>, set by each three.js constructor.\<close>

fun type :: "Object3D \<Rightarrow> string" where
  "type PerspectiveCamera = ''PerspectiveCamera''"
| "type (Mesh g) = ''Mesh''"
| "type (LineSegments w) = ''LineSegments''"
| "type (Points g sz) = ''Points''"

text \<open>\<open>object.geometry.getAttribute("color")\<close>; \<open>None\<close> where JavaScript has
  \<open>undefined\<close> (a wireframe has no colour attribute, a camera no geometry).\<close>

fun getAttribute_color :: "Object3D \<Rightarrow> jsnum BufferAttribute option" where
  "getAttribute_color (Mesh g) = Some (color g)"
| "getAttribute_color (Points g sz) = Some (color g)"
| "getAttribute_color ob = None"

fun with_color :: "jsnum BufferAttribute \<Rightarrow> Object3D \<Rightarrow> Object3D" where
  "with_color ca (Mesh g) = Mesh (g\<lparr>color := ca\<rparr>)"
| "with_color ca (Points g sz) = Points (g\<lparr>color := ca\<rparr>) sz"
| "with_color ca ob = ob"

text \<open>\<open>object.geometry.dispose()\<close>.\<close>

fun dispose :: "Object3D \<Rightarrow> Object3D" where
  "dispose (Mesh g) = Mesh (g\<lparr>disposed := True\<rparr>)"
| "dispose (Points g sz) = Points (g\<lparr>disposed := True\<rparr>) sz"
| "dispose (LineSegments w) = LineSegments (w\<lparr>wireframe_disposed := True\<rparr>)"
| "dispose PerspectiveCamera = PerspectiveCamera"

text \<open>One entry of \<open>raycaster.intersectObjects(...)\<close>: the object hit, and for a mesh
  the face \<open>(a, b, c)\<close> and its \<open>faceIndex\<close>, for a point cloud the \<open>index\<close> of the
  point.\<close>

record intersection =
  object :: ref
  face :: "(nat \<times> nat \<times> nat) option"
  faceIndex :: "nat option"
  index :: "nat option"

text \<open>What \<open>intersectedFace\<close> and \<open>intersectedPoint\<close> hold: \<open>undefined\<close> at the
  start, \<open>null\<close>, or an intersection record.\<close>

datatype pick = Undefined | Null | Intersection intersection

text \<open>\<open>if (v)\<close>: \<open>undefined\<close> and \<open>null\<close> are falsy, an object is truthy.\<close>

fun truthy :: "pick \<Rightarrow> bool" where
  "truthy Undefined = False"
| "truthy Null = False"
| "truthy (Intersection h) = True"

text \<open>\<open>v != obj\<close> for a scene object \<open>obj\<close>: \<open>undefined\<close> and \<open>null\<close> differ from
  every object, and an intersection record is an object of its own, never the scene
  object it hit.\<close>

fun loose_neq :: "pick \<Rightarrow> ref \<Rightarrow> bool" where
  "loose_neq Undefined obj = True"
| "loose_neq Null obj = True"
| "loose_neq (Intersection h) obj = True"

subsection \<open>Module state\<close>

text \<open>\<open>cacheVertices\<close> and \<open>cacheIndices\<close>: \<open>null\<close> or the array of a response. An
  entry of such an array is a number or an array of numbers (the flat and the nested
  encodings).\<close>

datatype 'a entry = Flat 'a | Nested "'a list"

datatype 'a cached = CNull | CArray "'a entry list"

record MeshSnapshot =
  vertices :: "rat entry list"
  indices :: "int entry list"

record params =
  mode :: string
  storeValue :: string
  showEdges :: bool
  showFaces :: bool
  showPoints :: bool
  domeColor :: nat
  pointSize :: rat
  searchDistance :: int

record state =
  heap :: "Object3D list"
  scene :: "ref list"
  intersectedFace :: pick
  intersectedPoint :: pick
  cacheVertices :: "rat cached"
  cacheIndices :: "int cached"
  mesh :: ref
  line :: ref
  points :: ref
  params :: params

text \<open>Dereferencing: every reference the program holds is to a live object, so a
  failed lookup has no JavaScript counterpart; it is reported like a \<open>TypeError\<close>.\<close>

definition deref :: "Object3D list \<Rightarrow> ref \<Rightarrow> Object3D option" where
  "deref h p = (if p < length h then Some (h ! p) else None)"

definition alloc :: "Object3D \<Rightarrow> state \<Rightarrow> ref \<times> state" where
  "alloc ob s = (length (heap s), s\<lparr>heap := heap s @ [ob]\<rparr>)"

subsection \<open>Highlighting\<close>

text \<open>The shared body of the three highlight functions: fetch the colour attribute of
  an object, write the slots, set \<open>needsUpdate\<close>.\<close>

definition paint :: "ref \<Rightarrow> jsnum list \<Rightarrow> color \<Rightarrow> state \<Rightarrow> state option" where
  "paint p idxs col s = do {
     ob \<leftarrow> deref (heap s) p;
     colorAttribute \<leftarrow> getAttribute_color ob;
     let colorAttribute = foldl (\<lambda>attr i. setXYZ i col attr) colorAttribute idxs;
     let colorAttribute = needsUpdate_true colorAttribute;
     Some (s\<lparr>heap := (heap s)[p := with_color colorAttribute ob]\<rparr>)
   }"

definition highlightFace :: "color \<Rightarrow> state \<Rightarrow> state option" where
  "highlightFace col s =
     (case intersectedFace s of
        Intersection h \<Rightarrow>
          (case face h of
             Some (a, b, c) \<Rightarrow> paint (object h) [js_int (int a), js_int (int b), js_int (int c)] col s
           | None \<Rightarrow> None)
      | _ \<Rightarrow> None)"

definition highlightPoint :: "color \<Rightarrow> state \<Rightarrow> state option" where
  "highlightPoint col s =
     (case intersectedPoint s of
        Intersection h \<Rightarrow>
          (case index h of
             Some i \<Rightarrow> paint (object h) [js_int (int i)] col s
           | None \<Rightarrow> None)
      | _ \<Rightarrow> None)"

definition highlightPointNeighbour :: "jsnum \<Rightarrow> color \<Rightarrow> state \<Rightarrow> state option" where
  "highlightPointNeighbour i col s = paint (points s) [i] col s"

subsection \<open>The pointer-move handler\<close>

definition when_truthy :: "pick \<Rightarrow> (state \<Rightarrow> state option) \<Rightarrow> state \<Rightarrow> state option" where
  "when_truthy v f s = (if truthy v then f s else Some s)"

text \<open>\<open>onPointerMove\<close>, given the result \<open>objects\<close> of
  \<open>raycaster.intersectObjects(scene.children)\<close> (nearest first).\<close>

definition onPointerMove :: "intersection list \<Rightarrow> state \<Rightarrow> state option" where
  "onPointerMove objects s =
     (case objects of
        hit # rest \<Rightarrow> do {
          ob \<leftarrow> deref (heap s) (object hit);
          if type ob = ''Mesh'' then
            if loose_neq (intersectedFace s) (object hit) then do {
              s \<leftarrow> when_truthy (intersectedFace s) (highlightFace Color_white) s;
              s \<leftarrow> when_truthy (intersectedPoint s) (highlightPoint Color_0x0080ff) s;
              let s = s\<lparr>intersectedFace := Intersection hit\<rparr>;
              highlightFace Color_red s
            } else Some s
          else if type ob = ''Points'' then
            if loose_neq (intersectedPoint s) (object hit) then do {
              s \<leftarrow> when_truthy (intersectedPoint s) (highlightPoint Color_0x0080ff) s;
              s \<leftarrow> when_truthy (intersectedFace s) (highlightFace Color_white) s;
              let s = s\<lparr>intersectedPoint := Intersection hit\<rparr>;
              highlightPoint Color_red s
            } else Some s
          else Some s
        }
      | [] \<Rightarrow> do {
          s \<leftarrow> when_truthy (intersectedFace s) (highlightFace Color_white) s;
          s \<leftarrow> when_truthy (intersectedPoint s) (highlightPoint Color_0x0080ff) s;
          Some (s\<lparr>intersectedFace := Null, intersectedPoint := Null\<rparr>)
        })"

subsection \<open>Building the three layers\<close>

text \<open>\<open>array.flat()\<close>: one level of nesting is removed.\<close>

fun flat :: "'a entry list \<Rightarrow> 'a list" where
  "flat [] = []"
| "flat (Flat x # es) = x # flat es"
| "flat (Nested xs # es) = xs @ flat es"

text \<open>The iterations of \<open>for (let i = 0; i < v.length; i += 3)\<close>: what
  \<open>v[i]\<close>, \<open>v[i + 1]\<close> and \<open>v[i + 2]\<close> read, \<open>None\<close> for a read past the end.\<close>

fun group3 :: "'a list \<Rightarrow> ('a option \<times> 'a option \<times> 'a option) list" where
  "group3 (x # y # z # rest) = (Some x, Some y, Some z) # group3 rest"
| "group3 [x, y] = [(Some x, Some y, None)]"
| "group3 [x] = [(Some x, None, None)]"
| "group3 [] = []"

definition Float32BufferAttribute :: "jsnum list \<Rightarrow> nat \<Rightarrow> jsnum BufferAttribute" where
  "Float32BufferAttribute xs n = \<lparr>array = xs, itemSize = n, version = 0\<rparr>"

definition createGeometry :: "MeshSnapshot \<Rightarrow> BufferGeometry" where
  "createGeometry data =
     (let col = Color_white;
          v = flat (vertices data);
          f = flat (indices data);
          vertices = concat (map (\<lambda>(x, y, z). [times50 x, times50 y, times50 z]) (group3 v));
          colors = concat (map (\<lambda>t. case col of (r, g, b) \<Rightarrow> [r, g, b]) (group3 v));
          indices = concat (map (\<lambda>(x, y, z). [x, y, z]) (group3 f))
      in \<lparr>index_array = indices,
          position = Float32BufferAttribute vertices 3,
          color = Float32BufferAttribute colors 3,
          disposed = False\<rparr>)"

definition createMesh :: "MeshSnapshot \<Rightarrow> Object3D" where
  "createMesh data = Mesh (createGeometry data)"

text \<open>\<open>createLine(mesh)\<close> and \<open>createPoints(mesh)\<close> read \<open>mesh.geometry\<close>; the
  program passes them the mesh it has just built.\<close>

fun createLine :: "Object3D \<Rightarrow> Object3D option" where
  "createLine (Mesh g) = Some (LineSegments \<lparr>wireframe_of = g, wireframe_disposed = False\<rparr>)"
| "createLine ob = None"

text \<open>\<open>setFromPoints\<close> stores \<open>point.x, point.y, point.z || 0\<close>.\<close>

fun or_zero :: "jsnum \<Rightarrow> jsnum" where
  "or_zero NaN = Num 0"
| "or_zero (Num q) = Num q"

fun createPoints :: "Object3D \<Rightarrow> Object3D option" where
  "createPoints (Mesh g) =
     (let positionAttribute = position g;
          vertices = map (\<lambda>i. getXYZ i positionAttribute) [0 ..< count positionAttribute];
          pointsPositions = concat (map (\<lambda>(x, y, z). [x, y, or_zero z]) vertices);
          col = Color_0x0080ff;
          colors = concat (map (\<lambda>t. case col of (r, g, b) \<Rightarrow> [r, g, b]) vertices)
      in Some (Points \<lparr>index_array = [],
                 position = Float32BufferAttribute pointsPositions 3,
                 color = Float32BufferAttribute colors 3,
                 disposed = False\<rparr> 2))"
| "createPoints ob = None"

subsection \<open>The scene\<close>

text \<open>\<open>scene.remove(obj)\<close> drops the object from \<open>scene.children\<close>;
  \<open>scene.add(obj)\<close> first detaches it from its parent, then appends it.\<close>

definition scene_remove :: "ref \<Rightarrow> state \<Rightarrow> state" where
  "scene_remove p s = s\<lparr>scene := remove1 p (scene s)\<rparr>"

definition scene_add :: "ref \<Rightarrow> state \<Rightarrow> state" where
  "scene_add p s = s\<lparr>scene := remove1 p (scene s) @ [p]\<rparr>"

definition geometry_dispose :: "ref \<Rightarrow> state \<Rightarrow> state option" where
  "geometry_dispose p s = do {
     ob \<leftarrow> deref (heap s) p;
     Some (s\<lparr>heap := (heap s)[p := dispose ob]\<rparr>)
   }"

text \<open>\<open>points.material.size = v\<close>.\<close>

fun with_size :: "rat \<Rightarrow> Object3D \<Rightarrow> Object3D option" where
  "with_size v (Points g sz) = Some (Points g v)"
| "with_size v ob = None"

definition set_points_size :: "rat \<Rightarrow> state \<Rightarrow> state option" where
  "set_points_size v s = do {
     ob \<leftarrow> deref (heap s) (points s);
     ob' \<leftarrow> with_size v ob;
     Some (s\<lparr>heap := (heap s)[points s := ob']\<rparr>)
   }"

subsection \<open>Responses\<close>

text \<open>The statements that the four mesh-returning callbacks share, from
  \<open>mesh.geometry.dispose()\<close> to \<open>params.showPoints && scene.add(points)\<close>.\<close>

definition replace_layers :: "MeshSnapshot \<Rightarrow> state \<Rightarrow> state option" where
  "replace_layers data s = do {
     s \<leftarrow> geometry_dispose (mesh s) s;
     s \<leftarrow> geometry_dispose (line s) s;
     s \<leftarrow> geometry_dispose (points s) s;
     let s = scene_remove (mesh s) s;
     let s = scene_remove (line s) s;
     let s = scene_remove (points s) s;
     let newMesh = createMesh data;
     let (p, s) = alloc newMesh s;
     let s = s\<lparr>mesh := p\<rparr>;
     newLine \<leftarrow> createLine newMesh;
     let (p, s) = alloc newLine s;
     let s = s\<lparr>line := p\<rparr>;
     newPoints \<leftarrow> createPoints newMesh;
     let (p, s) = alloc newPoints s;
     let s = s\<lparr>points := p\<rparr>;
     let s = scene_add (mesh s) s;
     s \<leftarrow> set_points_size (pointSize (params s)) s;
     let s = (if showEdges (params s) then scene_add (line s) s else s);
     let s = (if showPoints (params s) then scene_add (points s) s else s);
     Some s
   }"

text \<open>The callbacks of "tesselate all" and "reset dome".\<close>

definition tesselate_then :: "MeshSnapshot \<Rightarrow> state \<Rightarrow> state option" where
  "tesselate_then data s = replace_layers data s"

definition resetDome_then :: "MeshSnapshot \<Rightarrow> state \<Rightarrow> state option" where
  "resetDome_then data s = replace_layers data s"

text \<open>The callbacks of \<open>/faceselective\<close> and \<open>/vertexselective\<close>.\<close>

definition faceselective_then :: "MeshSnapshot \<Rightarrow> state \<Rightarrow> state option" where
  "faceselective_then data s =
     replace_layers data
       (s\<lparr>cacheVertices := CArray (vertices data), cacheIndices := CArray (indices data)\<rparr>)"

definition vertexselective_then :: "MeshSnapshot \<Rightarrow> state \<Rightarrow> state option" where
  "vertexselective_then data s =
     replace_layers data
       (s\<lparr>cacheVertices := CArray (vertices data), cacheIndices := CArray (indices data)\<rparr>)"

text \<open>The callback of \<open>/search\<close>: the loop over \<open>data.vertices\<close>. Each entry is
  passed to \<open>highlightPointNeighbour\<close> as it is. An entry is given here as the number
  that \<open>index *= itemSize\<close> reads it as: a JSON number as itself, anything that is not
  read as a number as \<open>NaN\<close>.\<close>

fun search_then :: "jsnum list \<Rightarrow> state \<Rightarrow> state option" where
  "search_then [] s = Some s"
| "search_then (i # rest) s = do {
     s \<leftarrow> highlightPointNeighbour i Color_red s;
     search_then rest s
   }"

subsection \<open>Requests and the click handler\<close>

datatype jsonv =
    JUndefined
  | JNum int
  | JStr string
  | JVertices "rat cached"
  | JIndices "int cached"

datatype body = NoBody | Text int | Json "(string \<times> jsonv) list"

datatype callback =
    TesselateThen
  | ResetDomeThen
  | FaceselectiveThen
  | VertexselectiveThen
  | SearchThen
  | RetrieveThen
  | StoreThen

text \<open>A \<open>fetch\<close> call: the address, the \<open>method\<close> option (field \<open>http_method\<close>),
  the body, and the callback that will run on the parsed response.\<close>

record request =
  url :: string
  http_method :: string
  body :: body
  callback :: callback

fun num_or_undefined :: "nat option \<Rightarrow> jsonv" where
  "num_or_undefined (Some n) = JNum (int n)"
| "num_or_undefined None = JUndefined"

text \<open>\<open>onClick\<close>, given the raycaster's result: the \<open>fetch\<close> calls it makes. It
  changes no variable of the module.\<close>

definition onClick :: "intersection list \<Rightarrow> state \<Rightarrow> request list option" where
  "onClick objects s =
     (case objects of
        hit # rest \<Rightarrow> do {
          ob \<leftarrow> deref (heap s) (object hit);
          if type ob = ''Mesh'' then
            if mode (params s) \<noteq> ''tessellate'' then Some []
            else Some [\<lparr>url = ''https://geodesic-dome.herokuapp.com/faceselective'',
                   http_method = ''POST'',
                   body = Json [(''index'', num_or_undefined (faceIndex hit)),
                                (''vertices'', JVertices (cacheVertices s)),
                                (''indices'', JIndices (cacheIndices s))],
                   callback = FaceselectiveThen\<rparr>]
          else if type ob = ''Points'' then
            if mode (params s) = ''tessellate'' then
              Some [\<lparr>url = ''https://geodesic-dome.herokuapp.com/vertexselective'',
                   http_method = ''POST'',
                   body = Json [(''index'', num_or_undefined (index hit)),
                                (''distance'', JNum (searchDistance (params s)))],
                   callback = VertexselectiveThen\<rparr>]
            else if mode (params s) = ''search'' then
              Some [\<lparr>url = ''https://geodesic-dome.herokuapp.com/search'',
                   http_method = ''POST'',
                   body = Json [(''index'', num_or_undefined (index hit)),
                                (''distance'', JNum (searchDistance (params s)))],
                   callback = SearchThen\<rparr>]
            else if mode (params s) = ''retrieve'' then
              Some [\<lparr>url = ''https://geodesic-dome.herokuapp.com/retrieve'',
                   http_method = ''POST'',
                   body = Json [(''index'', num_or_undefined (index hit))],
                   callback = RetrieveThen\<rparr>]
            else if mode (params s) = ''store'' then
              Some [\<lparr>url = ''https://geodesic-dome.herokuapp.com/store'',
                   http_method = ''POST'',
                   body = Json [(''index'', num_or_undefined (index hit)),
                                (''value'', JStr (storeValue (params s)))],
                   callback = StoreThen\<rparr>]
            else Some []
          else Some []
        }
      | [] \<Rightarrow> Some [])"

text \<open>The bodies a response can have, and the callback a request runs on its
  response. \<open>alert\<close> shows a dialog and changes no variable. A response of another
  shape than the callback reads is not modelled (\<open>None\<close>).\<close>

datatype response =
    MeshData MeshSnapshot
  | SearchData "jsnum list"
  | ValueData string
  | SuccessData bool

definition run_callback :: "callback \<Rightarrow> response \<Rightarrow> state \<Rightarrow> state option" where
  "run_callback cb resp s =
     (case (cb, resp) of
        (TesselateThen, MeshData data) \<Rightarrow> tesselate_then data s
      | (ResetDomeThen, MeshData data) \<Rightarrow> resetDome_then data s
      | (FaceselectiveThen, MeshData data) \<Rightarrow> faceselective_then data s
      | (VertexselectiveThen, MeshData data) \<Rightarrow> vertexselective_then data s
      | (SearchThen, SearchData vs) \<Rightarrow> search_then vs s
      | (RetrieveThen, ValueData v) \<Rightarrow> Some s
      | (StoreThen, SuccessData ok) \<Rightarrow> Some s
      | _ \<Rightarrow> None)"

subsection \<open>The GUI controls and the start state\<close>

definition tesselate :: request where
  "tesselate = \<lparr>url = ''https://geodesic-dome.herokuapp.com/tesselate'', http_method = ''POST'',
     body = Text 1, callback = TesselateThen\<rparr>"

definition resetDome :: request where
  "resetDome = \<lparr>url = ''https://geodesic-dome.herokuapp.com/reset'', http_method = ''GET'',
     body = NoBody, callback = ResetDomeThen\<rparr>"

definition set_mode :: "string \<Rightarrow> state \<Rightarrow> state" where
  "set_mode m s = s\<lparr>params := (params s)\<lparr>mode := m\<rparr>\<rparr>"

definition set_searchDistance :: "int \<Rightarrow> state \<Rightarrow> state" where
  "set_searchDistance d s = s\<lparr>params := (params s)\<lparr>searchDistance := d\<rparr>\<rparr>"

definition pointSize_onChange :: "rat \<Rightarrow> state \<Rightarrow> state option" where
  "pointSize_onChange v s = set_points_size v (s\<lparr>params := (params s)\<lparr>pointSize := v\<rparr>\<rparr>)"

definition showPoints_onChange :: "bool \<Rightarrow> state \<Rightarrow> state" where
  "showPoints_onChange v s =
     (let s = s\<lparr>params := (params s)\<lparr>showPoints := v\<rparr>\<rparr>
      in if v then scene_add (points s) s else scene_remove (points s) s)"

definition showEdges_onChange :: "bool \<Rightarrow> state \<Rightarrow> state" where
  "showEdges_onChange v s =
     (let s = s\<lparr>params := (params s)\<lparr>showEdges := v\<rparr>\<rparr>
      in if v then scene_add (line s) s else scene_remove (line s) s)"

definition showFaces_onChange :: "bool \<Rightarrow> state \<Rightarrow> state" where
  "showFaces_onChange v s =
     (let s = s\<lparr>params := (params s)\<lparr>showFaces := v\<rparr>\<rparr>
      in if v then scene_add (mesh s) s else scene_remove (mesh s) s)"

definition set_storeValue :: "string \<Rightarrow> state \<Rightarrow> state" where
  "set_storeValue v s = s\<lparr>params := (params s)\<lparr>storeValue := v\<rparr>\<rparr>"

text \<open>The colour picker: \<open>spotLight.color.set(params.domeColor)\<close> changes the light,
  which no handler reads.\<close>

definition domeColor_onChange :: "nat \<Rightarrow> state \<Rightarrow> state" where
  "domeColor_onChange c s = s\<lparr>params := (params s)\<lparr>domeColor := c\<rparr>\<rparr>"

text \<open>"reset points": every slot of the current point cloud gets the unselected
  colour, with \<open>needsUpdate\<close> set in each round of the loop.\<close>

definition reset :: "state \<Rightarrow> state option" where
  "reset s = do {
     ob \<leftarrow> deref (heap s) (points s);
     colorAttribute \<leftarrow> getAttribute_color ob;
     let col = Color_0x0080ff;
     let colorAttribute = foldl (\<lambda>attr i. needsUpdate_true (setXYZ (js_int (int i)) col attr))
       colorAttribute [0 ..< count colorAttribute];
     Some (s\<lparr>heap := (heap s)[points s := with_color colorAttribute ob]\<rparr>)
   }"

text \<open>The state after the module's top-level statements have run. \<open>data\<close> is the
  import of \<open>./icojson.js\<close>, which is not among the sources: it is a parameter.\<close>

definition init :: "MeshSnapshot \<Rightarrow> state option" where
  "init data = do {
     let newMesh = createMesh data;
     newLine \<leftarrow> createLine newMesh;
     newPoints \<leftarrow> createPoints newMesh;
     Some \<lparr>heap = [PerspectiveCamera, newMesh, newLine, newPoints],
           scene = [0, 1],
           intersectedFace = Undefined,
           intersectedPoint = Undefined,
           cacheVertices = CNull,
           cacheIndices = CNull,
           mesh = 1,
           line = 2,
           points = 3,
           params = \<lparr>mode = ''view'', storeValue = ''value'', showEdges = False,
             showFaces = True, showPoints = False, domeColor = 0xffa64d, pointSize = 2,
             searchDistance = 0\<rparr>\<rparr>
   }"

subsection \<open>Events\<close>

text \<open>What the browser can deliver to the module: a pointer move or a click (with
  the raycaster's result), the response of a request, and the GUI controls. A click
  changes no variable; the requests it makes are \<open>onClick\<close>'s result.\<close>

datatype event =
    PointerMove "intersection list"
  | Click "intersection list"
  | Response callback response
  | SetMode string
  | SetSearchDistance int
  | SetStoreValue string
  | DomeColor nat
  | ResetPoints
  | PointSize rat
  | ShowPoints bool
  | ShowEdges bool
  | ShowFaces bool

fun step :: "event \<Rightarrow> state \<Rightarrow> state option" where
  "step (PointerMove objects) s = onPointerMove objects s"
| "step (Click objects) s = do { reqs \<leftarrow> onClick objects s; Some s }"
| "step (Response cb resp) s = run_callback cb resp s"
| "step (SetMode m) s = Some (set_mode m s)"
| "step (SetSearchDistance d) s = Some (set_searchDistance d s)"
| "step (SetStoreValue v) s = Some (set_storeValue v s)"
| "step (DomeColor c) s = Some (domeColor_onChange c s)"
| "step ResetPoints s = reset s"
| "step (PointSize v) s = pointSize_onChange v s"
| "step (ShowPoints v) s = Some (showPoints_onChange v s)"
| "step (ShowEdges v) s = Some (showEdges_onChange v s)"
| "step (ShowFaces v) s = Some (showFaces_onChange v s)"

fun run :: "event list \<Rightarrow> state \<Rightarrow> state option" where
  "run [] s = Some s"
| "run (e # es) s = do { s \<leftarrow> step e s; run es s }"

text \<open>The three layer variables refer to live objects.\<close>

definition layers_live :: "state \<Rightarrow> bool" where
  "layers_live s = (mesh s < length (heap s) \<and> line s < length (heap s) \<and>
     points s < length (heap s))"

text \<open>\<open>scene.children\<close> after \<open>c && scene.add(p)\<close>.\<close>

definition attach :: "bool \<Rightarrow> ref \<Rightarrow> ref list \<Rightarrow> ref list" where
  "attach c p children = (if c then remove1 p children @ [p] else children)"

text \<open>\<open>points\<close> refers to a point cloud whose colour attribute has three components
  per vertex, as \<open>createPoints\<close> builds it.\<close>

definition points_ok :: "state \<Rightarrow> bool" where
  "points_ok s =
     (case deref (heap s) (points s) of
        Some (Points g sz) \<Rightarrow> itemSize (color g) = 3
      | _ \<Rightarrow> False)"

text \<open>A handler that writes colours and the two pick variables only: every other
  variable keeps its value, no object is created, and the point cloud stays well
  formed.\<close>

definition keeps :: "state \<Rightarrow> state \<Rightarrow> bool" where
  "keeps s s' = (scene s' = scene s \<and> cacheVertices s' = cacheVertices s \<and>
     cacheIndices s' = cacheIndices s \<and> mesh s' = mesh s \<and> line s' = line s \<and>
     points s' = points s \<and> params s' = params s \<and>
     length (heap s') = length (heap s) \<and> (points_ok s \<longrightarrow> points_ok s'))"

text \<open>How many reads past the end the last round of a loop in steps of three makes on an
  array of length \<open>n\<close>.\<close>

definition pad3 :: "nat \<Rightarrow> nat" where
  "pad3 n = (3 - n mod 3) mod 3"

text \<open>A response that carries a mesh.\<close>

fun mesh_response :: "event \<Rightarrow> bool" where
  "mesh_response (Response cb (MeshData data)) = True"
| "mesh_response e = False"

text \<open>What the loop of the search callback leaves in the colour attribute.\<close>

definition paint_all :: "jsnum list \<Rightarrow> color \<Rightarrow> jsnum BufferAttribute \<Rightarrow> jsnum BufferAttribute" where
  "paint_all vs col ca = foldl (\<lambda>a i. needsUpdate_true (setXYZ i col a)) ca vs"

subsection \<open>A small dome for the examples\<close>

definition dome4 :: MeshSnapshot where
  "dome4 = \<lparr>vertices = [Nested [0, 0, 1], Nested [1, 0, 0], Nested [0, 1, 0], Nested [0, 0, -1]],
     indices = [Nested [0, 1, 2], Nested [1, 2, 3]]\<rparr>"

definition dome3 :: MeshSnapshot where
  "dome3 = \<lparr>vertices = [Flat 0, Flat 0, Flat 1, Flat 1, Flat 0, Flat 0, Flat 0, Flat 1, Flat 0],
     indices = [Flat 0, Flat 1, Flat 2]\<rparr>"

text \<open>Intersection records as the raycaster builds them: a hit on face \<open>n\<close> of a mesh
  with corners \<open>(a, b, c)\<close>, a hit on point \<open>i\<close> of a point cloud, a hit on a
  wireframe.\<close>

definition face_hit :: "ref \<Rightarrow> nat \<Rightarrow> nat \<times> nat \<times> nat \<Rightarrow> intersection" where
  "face_hit p n abc = \<lparr>object = p, face = Some abc, faceIndex = Some n, index = None\<rparr>"

definition point_hit :: "ref \<Rightarrow> nat \<Rightarrow> intersection" where
  "point_hit p i = \<lparr>object = p, face = None, faceIndex = None, index = Some i\<rparr>"

definition line_hit :: "ref \<Rightarrow> nat \<Rightarrow> intersection" where
  "line_hit p i = \<lparr>object = p, face = None, faceIndex = None, index = Some i\<rparr>"

text \<open>The start state on \<open>dome4\<close>: the mesh is object 1, the wireframe object 2, the
  point cloud object 3.\<close>

definition start4 :: state where
  "start4 = the (init dome4)"

text \<open>The version counter of an object's colour attribute: how often \<open>needsUpdate\<close>
  has been set on it.\<close>

definition color_version :: "ref \<Rightarrow> state \<Rightarrow> nat option" where
  "color_version p s = do {
     ob \<leftarrow> deref (heap s) p;
     ca \<leftarrow> getAttribute_color ob;
     Some (version ca)
   }"

text \<open>The colour of vertex \<open>j\<close> in an object's colour attribute.\<close>

definition color_at :: "ref \<Rightarrow> nat \<Rightarrow> state \<Rightarrow> color option" where
  "color_at p j s = do {
     ob \<leftarrow> deref (heap s) p;
     ca \<leftarrow> getAttribute_color ob;
     Some (getXYZ j ca)
   }"

text \<open>The number of vertices an object's colour attribute has.\<close>

definition color_count :: "ref \<Rightarrow> state \<Rightarrow> nat option" where
  "color_count p s = do {
     ob \<leftarrow> deref (heap s) p;
     ca \<leftarrow> getAttribute_color ob;
     Some (count ca)
   }"

text \<open>The objects the three layer variables refer to.\<close>

definition mesh_object :: "state \<Rightarrow> Object3D option" where
  "mesh_object s = deref (heap s) (mesh s)"

definition points_object :: "state \<Rightarrow> Object3D option" where
  "points_object s = deref (heap s) (points s)"

text \<open>Face 0 of the start mesh, with corners 0, 1 and 2, and the states the examples
  use: tessellate or search mode selected, and the pointer resting on face 0.\<close>

definition face0 :: intersection where
  "face0 = face_hit 1 0 (0, 1, 2)"

definition tessellate4 :: state where
  "tessellate4 = set_mode ''tessellate'' start4"

definition search4 :: state where
  "search4 = showPoints_onChange True (set_mode ''search'' start4)"

definition hover4 :: state where
  "hover4 = the (onPointerMove [face0] start4)"

section \<open>Lemmas about the model\<close>

subsection \<open>Buffer attributes\<close>

declare typed_set.simps [simp del]

lemma typed_set_length [simp]: "length (typed_set i v xs) = length xs"
  by (cases i) (simp_all add: typed_set.simps)

text \<open>On an integer index the arithmetic of \<open>setXYZ\<close> is integer arithmetic, and a
  store is the bounds-checked list update.\<close>

lemma js_times_int: "js_times (js_int i) (of_nat n) = js_int (i * int n)"
  by (simp add: js_int_def)

lemma js_plus_int:
  "js_plus (js_int i) 0 = js_int i" "js_plus (js_int i) 1 = js_int (i + 1)"
  "js_plus (js_int i) 2 = js_int (i + 2)"
  by (simp_all add: js_int_def)

lemma typed_set_int:
  "typed_set (js_int i) v xs = (if 0 \<le> i \<and> i < int (length xs) then xs[nat i := v] else xs)"
proof -
  have "(of_int i :: rat) < of_nat (length xs) \<longleftrightarrow> i < int (length xs)"
    by (metis of_int_less_iff of_int_of_nat_eq)
  then show ?thesis by (simp add: js_int_def typed_set.simps)
qed

lemma typed_set_nth:
  "k < length xs \<Longrightarrow> typed_set (js_int i) v xs ! k = (if i = int k then v else xs ! k)"
  by (auto simp: typed_set_int nth_list_update)

lemma setXYZ_itemSize [simp]: "itemSize (setXYZ i c a) = itemSize a"
  by (simp add: setXYZ_def Let_def split: prod.splits)

lemma setXYZ_js_int:
  "setXYZ (js_int i) (x, y, z) a =
     a\<lparr>array := typed_set (js_int (i * int (itemSize a) + 2)) z
        (typed_set (js_int (i * int (itemSize a) + 1)) y
          (typed_set (js_int (i * int (itemSize a))) x (array a)))\<rparr>"
  by (simp add: setXYZ_def Let_def js_times_int js_plus_int)

lemma setXYZ_version [simp]: "version (setXYZ i c a) = version a"
  by (simp add: setXYZ_def Let_def split: prod.splits)

lemma setXYZ_length [simp]: "length (array (setXYZ i c a)) = length (array a)"
  by (simp add: setXYZ_def Let_def split: prod.splits)

lemma setXYZ_count [simp]: "count (setXYZ i c a) = count a"
  by (simp add: count_def)

lemma slot_in_range:
  assumes "itemSize a = 3" "j < count a"
  shows "j * 3 + 2 < length (array a)"
proof -
  from assms have "j < length (array a) div 3" by (simp add: count_def)
  then show ?thesis by arith
qed

lemma getXYZ_setXYZ:
  assumes "itemSize a = 3" "j < count a"
  shows "getXYZ j (setXYZ (js_int i) c a) = (if i = int j then c else getXYZ j a)"
proof -
  obtain x y z where c: "c = (x, y, z)" by (cases c) auto
  from slot_in_range[OF assms] have r: "j * 3 < length (array a)" "j * 3 + 1 < length (array a)"
    "j * 3 + 2 < length (array a)" by arith+
  show ?thesis
    using r assms(1) by (auto simp: getXYZ_def setXYZ_js_int c typed_set_nth)
qed

lemma needsUpdate_true_simps [simp]:
  "array (needsUpdate_true a) = array a" "itemSize (needsUpdate_true a) = itemSize a"
  "version (needsUpdate_true a) = Suc (version a)"
  by (simp_all add: needsUpdate_true_def)

lemma getXYZ_needsUpdate [simp]: "getXYZ j (needsUpdate_true a) = getXYZ j a"
  by (simp add: getXYZ_def)

lemma count_needsUpdate [simp]: "count (needsUpdate_true a) = count a"
  by (simp add: count_def)


lemma deref_Some: "deref h p = Some ob \<longleftrightarrow> p < length h \<and> h ! p = ob"
  by (auto simp: deref_def)

lemma deref_update: "deref (h[p := ob]) q = (if q = p \<and> p < length h then Some ob else deref h q)"
  by (auto simp: deref_def)

lemma highlightPointNeighbour_points:
  assumes "deref (heap s) (points s) = Some (Points g sz)"
  shows "highlightPointNeighbour i col s =
    Some (s\<lparr>heap := (heap s)[points s := Points (g\<lparr>color := needsUpdate_true (setXYZ i col (color g))\<rparr>) sz]\<rparr>)"
  using assms by (simp add: highlightPointNeighbour_def paint_def)

lemma search_then_points:
  assumes "deref (heap s) (points s) = Some (Points g sz)"
  shows "search_then vs s =
    Some (s\<lparr>heap := (heap s)[points s := Points (g\<lparr>color := paint_all vs Color_red (color g)\<rparr>) sz]\<rparr>)"
  using assms
proof (induction vs arbitrary: s g)
  case Nil
  then have "(heap s)[points s := Points g sz] = heap s"
    by (simp add: deref_Some list_update_same_conv)
  then show ?case by (simp add: paint_all_def)
next
  case (Cons i vs)
  let ?g = "g\<lparr>color := needsUpdate_true (setXYZ i Color_red (color g))\<rparr>"
  let ?s = "s\<lparr>heap := (heap s)[points s := Points ?g sz]\<rparr>"
  from Cons.prems have "deref (heap ?s) (points ?s) = Some (Points ?g sz)"
    by (simp add: deref_Some)
  from Cons.IH[OF this] highlightPointNeighbour_points[OF Cons.prems]
  show ?case by (simp add: paint_all_def)
qed

lemma paint_all_itemSize [simp]: "itemSize (paint_all vs col ca) = itemSize ca"
  unfolding paint_all_def by (induction vs arbitrary: ca) simp_all

lemma paint_all_count [simp]: "count (paint_all vs col ca) = count ca"
  unfolding paint_all_def by (induction vs arbitrary: ca) simp_all

lemma paint_all_length [simp]: "length (array (paint_all vs col ca)) = length (array ca)"
  unfolding paint_all_def by (induction vs arbitrary: ca) simp_all

lemma paint_all_version [simp]: "version (paint_all vs col ca) = version ca + length vs"
  unfolding paint_all_def by (induction vs arbitrary: ca) simp_all

lemma getXYZ_paint_all:
  assumes "itemSize ca = 3" "j < count ca"
  shows "getXYZ j (paint_all (map js_int vs) col ca) =
    (if int j \<in> set vs then col else getXYZ j ca)"
  using assms
proof (induction vs arbitrary: ca)
  case Nil
  then show ?case by (simp add: paint_all_def)
next
  case (Cons i vs)
  let ?ca = "needsUpdate_true (setXYZ (js_int i) col ca)"
  have "getXYZ j (paint_all (map js_int vs) col ?ca) =
      (if int j \<in> set vs then col else getXYZ j ?ca)"
    using Cons.prems by (intro Cons.IH) simp_all
  moreover have "paint_all (map js_int (i # vs)) col ca = paint_all (map js_int vs) col ?ca"
    by (simp add: paint_all_def)
  ultimately show ?case
    using Cons.prems by (auto simp: getXYZ_setXYZ)
qed


lemma createLine_createMesh:
  "createLine (createMesh data) =
     Some (LineSegments \<lparr>wireframe_of = createGeometry data, wireframe_disposed = False\<rparr>)"
  by (simp add: createMesh_def)

lemma createPoints_createMesh:
  "\<exists>g. createPoints (createMesh data) = Some (Points g 2) \<and> itemSize (color g) = 3"
  by (simp add: createMesh_def Let_def Float32BufferAttribute_def)

lemma geometry_dispose_live:
  assumes "p < length (heap s)"
  shows "geometry_dispose p s = Some (s\<lparr>heap := (heap s)[p := dispose (heap s ! p)]\<rparr>)"
  using assms by (simp add: geometry_dispose_def deref_def)

subsection \<open>Replacing the three layers\<close>

lemma replace_layers_live:
  assumes live: "layers_live s"
  shows "\<exists>s'. replace_layers data s = Some s' \<and>
     intersectedFace s' = intersectedFace s \<and> intersectedPoint s' = intersectedPoint s \<and>
     cacheVertices s' = cacheVertices s \<and> cacheIndices s' = cacheIndices s \<and>
     params s' = params s \<and>
     mesh s' = length (heap s) \<and> line s' = Suc (length (heap s)) \<and>
     points s' = Suc (Suc (length (heap s))) \<and>
     length (heap s') = length (heap s) + 3 \<and>
     deref (heap s') (mesh s') = Some (createMesh data) \<and>
     deref (heap s') (line s') = createLine (createMesh data) \<and>
     deref (heap s') (points s') =
       createPoints (createMesh data) \<bind> with_size (pointSize (params s)) \<and>
     scene s' = attach (showPoints (params s)) (points s')
       (attach (showEdges (params s)) (line s')
         (attach True (mesh s')
           (remove1 (points s) (remove1 (line s) (remove1 (mesh s) (scene s))))))"
proof -
  obtain g where g: "createPoints (createMesh data) = Some (Points g 2)"
    using createPoints_createMesh by blast
  define L where "L = LineSegments \<lparr>wireframe_of = createGeometry data, wireframe_disposed = False\<rparr>"
  have cl: "createLine (createMesh data) = Some L"
    by (simp add: L_def createLine_createMesh)
  define n where "n = length (heap s)"
  define s1 where "s1 = s\<lparr>heap := (heap s)[mesh s := dispose (heap s ! mesh s)]\<rparr>"
  define s2 where "s2 = s1\<lparr>heap := (heap s1)[line s1 := dispose (heap s1 ! line s1)]\<rparr>"
  define s3 where "s3 = s2\<lparr>heap := (heap s2)[points s2 := dispose (heap s2 ! points s2)]\<rparr>"
  define s4 where "s4 = scene_remove (mesh s3) s3"
  define s5 where "s5 = scene_remove (line s4) s4"
  define s6 where "s6 = scene_remove (points s5) s5"
  define s7 where "s7 = (s6\<lparr>heap := heap s6 @ [createMesh data]\<rparr>)\<lparr>mesh := length (heap s6)\<rparr>"
  define s8 where "s8 = (s7\<lparr>heap := heap s7 @ [L]\<rparr>)\<lparr>line := length (heap s7)\<rparr>"
  define s9 where "s9 = (s8\<lparr>heap := heap s8 @ [Points g 2]\<rparr>)\<lparr>points := length (heap s8)\<rparr>"
  define s10 where "s10 = scene_add (mesh s9) s9"
  define s11 where "s11 = s10\<lparr>heap := (heap s10)[points s10 := Points g (pointSize (params s10))]\<rparr>"
  define s12 where "s12 = (if showEdges (params s11) then scene_add (line s11) s11 else s11)"
  define s13 where "s13 = (if showPoints (params s12) then scene_add (points s12) s12 else s12)"
  define sc where "sc = remove1 (points s) (remove1 (line s) (remove1 (mesh s) (scene s)))"
  have k1: "intersectedFace s1 = intersectedFace s" "intersectedPoint s1 = intersectedPoint s"
      "cacheVertices s1 = cacheVertices s" "cacheIndices s1 = cacheIndices s"
      "params s1 = params s" "mesh s1 = mesh s" "line s1 = line s" "points s1 = points s"
      "scene s1 = scene s" "length (heap s1) = n"
    by (simp_all add: s1_def n_def)
  have k2: "intersectedFace s2 = intersectedFace s" "intersectedPoint s2 = intersectedPoint s"
      "cacheVertices s2 = cacheVertices s" "cacheIndices s2 = cacheIndices s"
      "params s2 = params s" "mesh s2 = mesh s" "line s2 = line s" "points s2 = points s"
      "scene s2 = scene s" "length (heap s2) = n"
    by (simp_all add: s2_def k1)
  have k3: "intersectedFace s3 = intersectedFace s" "intersectedPoint s3 = intersectedPoint s"
      "cacheVertices s3 = cacheVertices s" "cacheIndices s3 = cacheIndices s"
      "params s3 = params s" "mesh s3 = mesh s" "line s3 = line s" "points s3 = points s"
      "scene s3 = scene s" "length (heap s3) = n"
    by (simp_all add: s3_def k2)
  have k4: "intersectedFace s4 = intersectedFace s" "intersectedPoint s4 = intersectedPoint s"
      "cacheVertices s4 = cacheVertices s" "cacheIndices s4 = cacheIndices s"
      "params s4 = params s" "mesh s4 = mesh s" "line s4 = line s" "points s4 = points s"
      "length (heap s4) = n" "scene s4 = remove1 (mesh s) (scene s)"
    by (simp_all add: s4_def scene_remove_def k3)
  have k5: "intersectedFace s5 = intersectedFace s" "intersectedPoint s5 = intersectedPoint s"
      "cacheVertices s5 = cacheVertices s" "cacheIndices s5 = cacheIndices s"
      "params s5 = params s" "mesh s5 = mesh s" "line s5 = line s" "points s5 = points s"
      "length (heap s5) = n" "scene s5 = remove1 (line s) (remove1 (mesh s) (scene s))"
    by (simp_all add: s5_def scene_remove_def k4)
  have k6: "intersectedFace s6 = intersectedFace s" "intersectedPoint s6 = intersectedPoint s"
      "cacheVertices s6 = cacheVertices s" "cacheIndices s6 = cacheIndices s"
      "params s6 = params s" "mesh s6 = mesh s" "line s6 = line s" "points s6 = points s"
      "length (heap s6) = n" "scene s6 = sc"
    by (simp_all add: s6_def scene_remove_def k5 sc_def)
  have k7: "intersectedFace s7 = intersectedFace s" "intersectedPoint s7 = intersectedPoint s"
      "cacheVertices s7 = cacheVertices s" "cacheIndices s7 = cacheIndices s"
      "params s7 = params s" "mesh s7 = n" "scene s7 = sc"
      "heap s7 = heap s6 @ [createMesh data]"
    by (simp_all add: s7_def k6)
  have k8: "intersectedFace s8 = intersectedFace s" "intersectedPoint s8 = intersectedPoint s"
      "cacheVertices s8 = cacheVertices s" "cacheIndices s8 = cacheIndices s"
      "params s8 = params s" "mesh s8 = n" "line s8 = Suc n" "scene s8 = sc"
      "heap s8 = heap s6 @ [createMesh data, L]"
    by (simp_all add: s8_def k7 k6)
  have k9: "intersectedFace s9 = intersectedFace s" "intersectedPoint s9 = intersectedPoint s"
      "cacheVertices s9 = cacheVertices s" "cacheIndices s9 = cacheIndices s"
      "params s9 = params s" "mesh s9 = n" "line s9 = Suc n" "points s9 = Suc (Suc n)"
      "scene s9 = sc"
      "heap s9 = heap s6 @ [createMesh data, L, Points g 2]"
    by (simp_all add: s9_def k8 k6)
  have k10: "intersectedFace s10 = intersectedFace s" "intersectedPoint s10 = intersectedPoint s"
      "cacheVertices s10 = cacheVertices s" "cacheIndices s10 = cacheIndices s"
      "params s10 = params s" "mesh s10 = n" "line s10 = Suc n" "points s10 = Suc (Suc n)"
      "scene s10 = attach True n sc"
      "heap s10 = heap s6 @ [createMesh data, L, Points g 2]"
    by (simp_all add: s10_def scene_add_def k9 attach_def)
  have upd: "(heap s6 @ [createMesh data, L, Points g 2])[Suc (Suc n) := P] =
      heap s6 @ [createMesh data, L, P]" for P
    using k6(9) by (simp add: list_update_append)
  have k11: "intersectedFace s11 = intersectedFace s" "intersectedPoint s11 = intersectedPoint s"
      "cacheVertices s11 = cacheVertices s" "cacheIndices s11 = cacheIndices s"
      "params s11 = params s" "mesh s11 = n" "line s11 = Suc n" "points s11 = Suc (Suc n)"
      "scene s11 = attach True n sc"
      "heap s11 = heap s6 @ [createMesh data, L, Points g (pointSize (params s))]"
    by (simp_all add: s11_def k10 upd)
  have k12: "intersectedFace s12 = intersectedFace s" "intersectedPoint s12 = intersectedPoint s"
      "cacheVertices s12 = cacheVertices s" "cacheIndices s12 = cacheIndices s"
      "params s12 = params s" "mesh s12 = n" "line s12 = Suc n" "points s12 = Suc (Suc n)"
      "scene s12 = attach (showEdges (params s)) (Suc n) (attach True n sc)"
      "heap s12 = heap s6 @ [createMesh data, L, Points g (pointSize (params s))]"
    by (simp_all add: s12_def scene_add_def k11 attach_def)
  have k13: "intersectedFace s13 = intersectedFace s" "intersectedPoint s13 = intersectedPoint s"
      "cacheVertices s13 = cacheVertices s" "cacheIndices s13 = cacheIndices s"
      "params s13 = params s" "mesh s13 = n" "line s13 = Suc n" "points s13 = Suc (Suc n)"
      "scene s13 = attach (showPoints (params s)) (Suc (Suc n))
         (attach (showEdges (params s)) (Suc n) (attach True n sc))"
      "heap s13 = heap s6 @ [createMesh data, L, Points g (pointSize (params s))]"
    by (simp_all add: s13_def scene_add_def k12 attach_def)
  have d1: "geometry_dispose (mesh s) s = Some s1"
    using live by (simp add: s1_def geometry_dispose_live layers_live_def)
  have d2: "geometry_dispose (line s1) s1 = Some s2"
    using live by (simp add: s2_def geometry_dispose_live layers_live_def k1 n_def)
  have d3: "geometry_dispose (points s2) s2 = Some s3"
    using live by (simp add: s3_def geometry_dispose_live layers_live_def k2 n_def)
  have p11: "set_points_size (pointSize (params s10)) s10 = Some s11"
    using k6(9) by (simp add: set_points_size_def deref_def s11_def k10 nth_append)
  have run: "replace_layers data s = Some s13"
    unfolding replace_layers_def
    by (simp only: d1 d2 d3 Option.bind.bind_lunit Let_def s4_def[symmetric] s5_def[symmetric]
        s6_def[symmetric] alloc_def prod.case s7_def[symmetric] s8_def[symmetric]
        s9_def[symmetric] cl g s10_def[symmetric] p11 s12_def[symmetric] s13_def[symmetric])
  have len: "length (heap s13) = length (heap s) + 3"
    by (simp add: k13 k6 n_def)
  have m: "deref (heap s13) (mesh s13) = Some (createMesh data)"
    using k6(9) by (simp add: deref_def k13 nth_append)
  have l: "deref (heap s13) (line s13) = createLine (createMesh data)"
    using k6(9) by (simp add: deref_def k13 nth_append cl)
  have p: "deref (heap s13) (points s13) =
      createPoints (createMesh data) \<bind> with_size (pointSize (params s))"
    using k6(9) by (simp add: deref_def k13 nth_append g)
  show ?thesis
    using run len m l p k13(1-8) k13(9)[unfolded sc_def] unfolding n_def[symmetric]
    by (intro exI[of _ s13]) (simp add: n_def sc_def)
qed

subsection \<open>What a handler leaves unchanged\<close>

lemma points_ok_iff:
  "points_ok s \<longleftrightarrow>
     (\<exists>g sz. deref (heap s) (points s) = Some (Points g sz) \<and> itemSize (color g) = 3)"
  by (auto simp: points_ok_def split: option.splits Object3D.splits)

lemma paint_result:
  assumes "paint p idxs col s = Some s'"
  shows "\<exists>ob ca. deref (heap s) p = Some ob \<and> getAttribute_color ob = Some ca \<and>
     s' = s\<lparr>heap := (heap s)[p := with_color
       (needsUpdate_true (foldl (\<lambda>attr i. setXYZ i col attr) ca idxs)) ob]\<rparr>"
  using assms by (auto simp: paint_def Let_def split: bind_splits)

lemma foldl_setXYZ_itemSize [simp]:
  "itemSize (foldl (\<lambda>attr i. setXYZ i col attr) ca idxs) = itemSize ca"
  by (induction idxs arbitrary: ca) simp_all

lemma paint_keeps:
  assumes "paint p idxs col s = Some s'"
  shows "s' = s\<lparr>heap := heap s'\<rparr>" "length (heap s') = length (heap s)"
    "points_ok s \<Longrightarrow> points_ok s'"
proof -
  from paint_result[OF assms] obtain ob ca where
    ob: "deref (heap s) p = Some ob" and ca: "getAttribute_color ob = Some ca" and
    s': "s' = s\<lparr>heap := (heap s)[p := with_color
       (needsUpdate_true (foldl (\<lambda>attr i. setXYZ i col attr) ca idxs)) ob]\<rparr>"
    by blast
  show "s' = s\<lparr>heap := heap s'\<rparr>" by (simp add: s')
  show "length (heap s') = length (heap s)" by (simp add: s')
  show "points_ok s'" if "points_ok s"
  proof -
    from that obtain g sz where g: "deref (heap s) (points s) = Some (Points g sz)"
      "itemSize (color g) = 3"
      by (auto simp: points_ok_iff)
    show ?thesis
    proof (cases "p = points s")
      case True
      with ob ca g show ?thesis
        by (auto simp: points_ok_iff s' deref_update deref_Some)
    next
      case False
      with g show ?thesis
        by (auto simp: points_ok_iff s' deref_update)
    qed
  qed
qed

lemma highlightFace_keeps:
  assumes "highlightFace col s = Some s'"
  shows "s' = s\<lparr>heap := heap s'\<rparr>" "length (heap s') = length (heap s)"
    "points_ok s \<Longrightarrow> points_ok s'"
  using assms paint_keeps
  by (auto simp: highlightFace_def split: pick.splits option.splits prod.splits)

lemma highlightPoint_keeps:
  assumes "highlightPoint col s = Some s'"
  shows "s' = s\<lparr>heap := heap s'\<rparr>" "length (heap s') = length (heap s)"
    "points_ok s \<Longrightarrow> points_ok s'"
  using assms paint_keeps
  by (auto simp: highlightPoint_def split: pick.splits option.splits)

lemma keeps_refl [simp]: "keeps s s"
  by (simp add: keeps_def)

lemma keeps_trans: "keeps s t \<Longrightarrow> keeps t u \<Longrightarrow> keeps s u"
  by (simp add: keeps_def)

lemma points_ok_cong: "heap s' = heap s \<Longrightarrow> points s' = points s \<Longrightarrow> points_ok s' = points_ok s"
  by (simp add: points_ok_def)

lemma keeps_picks [simp]:
  "keeps s (s\<lparr>intersectedFace := v\<rparr>)" "keeps s (s\<lparr>intersectedPoint := v\<rparr>)"
  "keeps s (s\<lparr>intersectedFace := v, intersectedPoint := w\<rparr>)"
  by (simp_all add: keeps_def points_ok_def)

lemma paint_keeps': "paint p idxs col s = Some s' \<Longrightarrow> keeps s s'"
  using paint_keeps[of p idxs col s s'] unfolding keeps_def
  by (metis (no_types) state.select_convs state.update_convs(1) state.surjective)


lemma highlightFace_keeps': "highlightFace col s = Some s' \<Longrightarrow> keeps s s'"
  by (auto simp: highlightFace_def paint_keeps' split: pick.splits option.splits prod.splits)

lemma highlightPoint_keeps': "highlightPoint col s = Some s' \<Longrightarrow> keeps s s'"
  by (auto simp: highlightPoint_def paint_keeps' split: pick.splits option.splits)

lemma highlightPointNeighbour_keeps: "highlightPointNeighbour i col s = Some s' \<Longrightarrow> keeps s s'"
  by (simp add: highlightPointNeighbour_def paint_keeps')

lemma when_truthy_highlightFace: "when_truthy v (highlightFace col) s = Some s' \<Longrightarrow> keeps s s'"
  by (auto simp: when_truthy_def highlightFace_keeps' split: if_splits)

lemma when_truthy_highlightPoint: "when_truthy v (highlightPoint col) s = Some s' \<Longrightarrow> keeps s s'"
  by (auto simp: when_truthy_def highlightPoint_keeps' split: if_splits)

lemma loose_neq_always [simp]: "loose_neq v obj"
  by (cases v) simp_all

lemma onPointerMove_keeps:
  assumes "onPointerMove objects s = Some s'"
  shows "keeps s s'"
proof (cases objects)
  case Nil
  with assms obtain s1 s2 where
    "when_truthy (intersectedFace s) (highlightFace Color_white) s = Some s1"
    "when_truthy (intersectedPoint s1) (highlightPoint Color_0x0080ff) s1 = Some s2"
    "s' = s2\<lparr>intersectedFace := Null, intersectedPoint := Null\<rparr>"
    by (auto simp: onPointerMove_def split: bind_splits)
  then have "keeps s s1" "keeps s1 s2" "keeps s2 s'"
    by (simp_all add: when_truthy_highlightFace when_truthy_highlightPoint)
  then show ?thesis by (blast intro: keeps_trans)
next
  case (Cons hit rest)
  with assms obtain ob where ob: "deref (heap s) (object hit) = Some ob"
    by (auto simp: onPointerMove_def split: bind_splits)
  consider (mesh) "type ob = ''Mesh''" | (points) "type ob \<noteq> ''Mesh''" "type ob = ''Points''"
    | (other) "type ob \<noteq> ''Mesh''" "type ob \<noteq> ''Points''"
    by blast
  then show ?thesis
  proof cases
    case mesh
    with assms Cons ob obtain s1 s2 where
      "when_truthy (intersectedFace s) (highlightFace Color_white) s = Some s1"
      "when_truthy (intersectedPoint s1) (highlightPoint Color_0x0080ff) s1 = Some s2"
      "highlightFace Color_red (s2\<lparr>intersectedFace := Intersection hit\<rparr>) = Some s'"
      by (auto simp: onPointerMove_def split: bind_splits if_splits)
    then have "keeps s s1" "keeps s1 s2" "keeps s2 (s2\<lparr>intersectedFace := Intersection hit\<rparr>)"
      "keeps (s2\<lparr>intersectedFace := Intersection hit\<rparr>) s'"
      by (simp_all add: when_truthy_highlightFace when_truthy_highlightPoint highlightFace_keeps')
    then show ?thesis by (blast intro: keeps_trans)
  next
    case points
    with assms Cons ob obtain s1 s2 where
      "when_truthy (intersectedPoint s) (highlightPoint Color_0x0080ff) s = Some s1"
      "when_truthy (intersectedFace s1) (highlightFace Color_white) s1 = Some s2"
      "highlightPoint Color_red (s2\<lparr>intersectedPoint := Intersection hit\<rparr>) = Some s'"
      by (auto simp: onPointerMove_def split: bind_splits if_splits)
    then have "keeps s s1" "keeps s1 s2" "keeps s2 (s2\<lparr>intersectedPoint := Intersection hit\<rparr>)"
      "keeps (s2\<lparr>intersectedPoint := Intersection hit\<rparr>) s'"
      by (simp_all add: when_truthy_highlightFace when_truthy_highlightPoint highlightPoint_keeps')
    then show ?thesis by (blast intro: keeps_trans)
  next
    case other
    with assms Cons ob have "s' = s" by (simp add: onPointerMove_def)
    then show ?thesis by simp
  qed
qed

lemma search_then_keeps: "search_then vs s = Some s' \<Longrightarrow> keeps s s'"
proof (induction vs arbitrary: s)
  case Nil
  then show ?case by simp
next
  case (Cons i vs)
  then obtain s1 where "highlightPointNeighbour i Color_red s = Some s1" "search_then vs s1 = Some s'"
    by (auto split: bind_splits)
  with Cons.IH show ?case
    by (blast intro: keeps_trans highlightPointNeighbour_keeps)
qed

text \<open>The invariant of the reachable states.\<close>

lemma init_inv:
  assumes "init data = Some s"
  shows "layers_live s" "points_ok s" "cacheVertices s = CNull" "cacheIndices s = CNull"
proof -
  obtain g where g: "createPoints (createMesh data) = Some (Points g 2)" "itemSize (color g) = 3"
    using createPoints_createMesh by blast
  with assms have s: "s = \<lparr>heap = [PerspectiveCamera, createMesh data,
         LineSegments \<lparr>wireframe_of = createGeometry data, wireframe_disposed = False\<rparr>, Points g 2],
       scene = [0, 1], intersectedFace = Undefined, intersectedPoint = Undefined,
       cacheVertices = CNull, cacheIndices = CNull, mesh = 1, line = 2, points = 3,
       params = \<lparr>mode = ''view'', storeValue = ''value'', showEdges = False,
             showFaces = True, showPoints = False, domeColor = 0xffa64d, pointSize = 2,
             searchDistance = 0\<rparr>\<rparr>"
    by (simp add: init_def createLine_createMesh)
  show "layers_live s" "points_ok s" "cacheVertices s = CNull" "cacheIndices s = CNull"
    using g(2) by (simp_all add: s layers_live_def points_ok_def deref_def)
qed

lemma init_total: "\<exists>s. init data = Some s"
  using createPoints_createMesh[of data] by (auto simp: init_def createLine_createMesh)

lemma keeps_inv:
  assumes "keeps s s'" "layers_live s" "points_ok s"
  shows "layers_live s'" "points_ok s'"
  using assms by (simp_all add: keeps_def layers_live_def)

lemma replace_layers_inv:
  assumes "replace_layers data s = Some s'" "layers_live s"
  shows "layers_live s'" "points_ok s'"
proof -
  obtain g where g: "createPoints (createMesh data) = Some (Points g 2)" "itemSize (color g) = 3"
    using createPoints_createMesh by blast
  from replace_layers_live[OF assms(2), of data] assms(1) have
    r: "mesh s' = length (heap s)" "line s' = Suc (length (heap s))"
      "points s' = Suc (Suc (length (heap s)))" "length (heap s') = length (heap s) + 3"
      "deref (heap s') (points s') =
         createPoints (createMesh data) \<bind> with_size (pointSize (params s))"
    by auto
  show "layers_live s'" by (simp add: layers_live_def r)
  show "points_ok s'" using r(5) g by (simp add: points_ok_def)
qed


lemma foldl_paint_itemSize [simp]:
  "itemSize (foldl (\<lambda>attr i. needsUpdate_true (setXYZ (f i) col attr)) ca is) = itemSize ca"
  by (induction "is" arbitrary: ca) simp_all

lemma reset_keeps:
  assumes "reset s = Some s'"
  shows "keeps s s'"
proof -
  from assms obtain ob ca where ob: "deref (heap s) (points s) = Some ob"
    "getAttribute_color ob = Some ca"
    and s': "s' = s\<lparr>heap := (heap s)[points s := with_color
       (foldl (\<lambda>attr i. needsUpdate_true (setXYZ (js_int (int i)) Color_0x0080ff attr)) ca
          [0 ..< count ca]) ob]\<rparr>"
    by (auto simp: reset_def Let_def split: bind_splits)
  have "points_ok s'" if "points_ok s"
    using that ob by (auto simp: points_ok_iff s' deref_update deref_Some)
  then show ?thesis by (simp add: keeps_def s')
qed

lemma step_inv:
  assumes "step e s = Some s'" "layers_live s" "points_ok s"
  shows "layers_live s' \<and> points_ok s'"
proof (cases e)
  case (PointerMove objects)
  with assms keeps_inv[OF onPointerMove_keeps] show ?thesis by auto
next
  case (Click objects)
  with assms show ?thesis by (auto split: bind_splits)
next
  case (Response cb resp)
  show ?thesis
  proof (cases resp)
    case (MeshData data)
    let ?c = "s\<lparr>cacheVertices := CArray (vertices data), cacheIndices := CArray (indices data)\<rparr>"
    have c: "layers_live ?c" using assms(2) by (simp add: layers_live_def)
    from assms(1) Response MeshData
    consider "replace_layers data s = Some s'" | "replace_layers data ?c = Some s'"
      by (cases cb) (auto simp: run_callback_def tesselate_then_def resetDome_then_def
          faceselective_then_def vertexselective_then_def)
    then show ?thesis
      using replace_layers_inv[OF _ assms(2)] replace_layers_inv[OF _ c] by cases auto
  next
    case (SearchData vs)
    with assms(1) Response have "search_then vs s = Some s'"
      by (cases cb) (auto simp: run_callback_def)
    from keeps_inv[OF search_then_keeps[OF this] assms(2,3)] show ?thesis by simp
  next
    case (ValueData v)
    with assms Response show ?thesis by (cases cb) (auto simp: run_callback_def)
  next
    case (SuccessData ok)
    with assms Response show ?thesis by (cases cb) (auto simp: run_callback_def)
  qed
next
  case (SetMode m)
  with assms show ?thesis by (auto simp: set_mode_def layers_live_def points_ok_def)
next
  case (SetSearchDistance d)
  with assms show ?thesis by (auto simp: set_searchDistance_def layers_live_def points_ok_def)
next
  case (SetStoreValue v)
  with assms show ?thesis by (auto simp: set_storeValue_def layers_live_def points_ok_def)
next
  case (DomeColor c)
  with assms show ?thesis by (auto simp: domeColor_onChange_def layers_live_def points_ok_def)
next
  case ResetPoints
  with assms keeps_inv[OF reset_keeps] show ?thesis by auto
next
  case (PointSize v)
  from assms(3) obtain g sz where g: "deref (heap s) (points s) = Some (Points g sz)"
    "itemSize (color g) = 3"
    by (auto simp: points_ok_iff)
  with assms(1) PointSize
  have "s' = s\<lparr>params := (params s)\<lparr>pointSize := v\<rparr>, heap := (heap s)[points s := Points g v]\<rparr>"
    by (auto simp: pointSize_onChange_def set_points_size_def)
  with assms(2) g show ?thesis
    by (auto simp: layers_live_def points_ok_iff deref_update deref_Some)
next
  case (ShowPoints v)
  with assms show ?thesis
    by (auto simp: showPoints_onChange_def scene_add_def scene_remove_def layers_live_def
        points_ok_def Let_def)
next
  case (ShowEdges v)
  with assms show ?thesis
    by (auto simp: showEdges_onChange_def scene_add_def scene_remove_def layers_live_def
        points_ok_def Let_def)
next
  case (ShowFaces v)
  with assms show ?thesis
    by (auto simp: showFaces_onChange_def scene_add_def scene_remove_def layers_live_def
        points_ok_def Let_def)
qed

lemma run_inv:
  assumes "run es s = Some s'" "layers_live s" "points_ok s"
  shows "layers_live s' \<and> points_ok s'"
  using assms
proof (induction es arbitrary: s)
  case Nil
  then show ?case by simp
next
  case (Cons e es)
  then obtain s1 where s1: "step e s = Some s1" "run es s1 = Some s'"
    by (auto split: bind_splits)
  from step_inv[OF s1(1) Cons.prems(2,3)] Cons.IH[OF s1(2)] show ?case by blast
qed

lemma run_append: "run (es @ es') s = run es s \<bind> run es'"
  by (induction es arbitrary: s) (simp_all split: bind_split)

lemma reachable_inv:
  assumes "init data = Some s0" "run es s0 = Some s"
  shows "layers_live s" "points_ok s"
  using run_inv[OF assms(2)] init_inv[OF assms(1)] by auto

text \<open>Events other than a mesh response leave the cache alone.\<close>

lemma step_cache:
  assumes "step e s = Some s'" "\<not> mesh_response e"
  shows "cacheVertices s' = cacheVertices s \<and> cacheIndices s' = cacheIndices s"
proof (cases e)
  case (PointerMove objects)
  with assms onPointerMove_keeps[of objects s s'] show ?thesis by (simp add: keeps_def)
next
  case (Click objects)
  with assms show ?thesis by (auto split: bind_splits)
next
  case (Response cb resp)
  show ?thesis
  proof (cases resp)
    case (MeshData data)
    with assms(2) Response show ?thesis by simp
  next
    case (SearchData vs)
    with assms(1) Response have "search_then vs s = Some s'"
      by (cases cb) (auto simp: run_callback_def)
    from search_then_keeps[OF this] show ?thesis by (simp add: keeps_def)
  next
    case (ValueData v)
    with assms Response show ?thesis by (cases cb) (auto simp: run_callback_def)
  next
    case (SuccessData ok)
    with assms Response show ?thesis by (cases cb) (auto simp: run_callback_def)
  qed
next
  case (SetMode m)
  with assms show ?thesis by (auto simp: set_mode_def)
next
  case (SetSearchDistance d)
  with assms show ?thesis by (auto simp: set_searchDistance_def)
next
  case (SetStoreValue v)
  with assms show ?thesis by (auto simp: set_storeValue_def)
next
  case (DomeColor c)
  with assms show ?thesis by (auto simp: domeColor_onChange_def)
next
  case ResetPoints
  with assms reset_keeps[of s s'] show ?thesis by (simp add: keeps_def)
next
  case (PointSize v)
  with assms show ?thesis
    by (auto simp: pointSize_onChange_def set_points_size_def split: bind_splits)
next
  case (ShowPoints v)
  with assms show ?thesis
    by (auto simp: showPoints_onChange_def scene_add_def scene_remove_def Let_def)
next
  case (ShowEdges v)
  with assms show ?thesis
    by (auto simp: showEdges_onChange_def scene_add_def scene_remove_def Let_def)
next
  case (ShowFaces v)
  with assms show ?thesis
    by (auto simp: showFaces_onChange_def scene_add_def scene_remove_def Let_def)
qed

lemma run_cache:
  assumes "run es s = Some s'" "list_all (\<lambda>e. \<not> mesh_response e) es"
  shows "cacheVertices s' = cacheVertices s \<and> cacheIndices s' = cacheIndices s"
  using assms
proof (induction es arbitrary: s)
  case Nil
  then show ?case by simp
next
  case (Cons e es)
  then obtain s1 where s1: "step e s = Some s1" "run es s1 = Some s'"
    by (auto split: bind_splits)
  from step_cache[OF s1(1)] Cons.IH[OF s1(2)] Cons.prems(2) show ?case by simp
qed

subsection \<open>What the three layers hold\<close>

lemma pad3_simps [simp]:
  "pad3 0 = 0" "pad3 (Suc 0) = 2" "pad3 (Suc (Suc 0)) = 1" "pad3 (Suc (Suc (Suc n))) = pad3 n"
  by (simp_all add: pad3_def mod_Suc)

lemma group3_concat:
  "concat (map (\<lambda>(x, y, z). [f x, f y, f z]) (group3 v)) =
     map (\<lambda>x. f (Some x)) v @ replicate (pad3 (length v)) (f None)"
  by (induction v rule: group3.induct) (simp_all add: numeral_2_eq_2)

lemma group3_length: "length (group3 v) = (length v + 2) div 3"
  by (induction v rule: group3.induct) simp_all

lemma pad3_length: "n + pad3 n = 3 * ((n + 2) div 3)"
proof -
  have "length v + pad3 (length v) = 3 * ((length v + 2) div 3)" for v :: "unit list"
  proof (induction v rule: group3.induct)
    case (1 x y z rest)
    have "(5 + length rest) div 3 = Suc (Suc (Suc (length rest)) div 3)"
      by linarith
    with 1 show ?case by simp
  qed simp_all
  from this[of "replicate n ()"] show ?thesis by simp
qed

text \<open>\<open>createGeometry\<close>: the positions are the flattened vertices times 50, the index
  is the flattened indices (each padded to whole triples by what a read past the end
  gives), and every vertex is white.\<close>

lemma createGeometry_holds:
  "array (position (createGeometry data)) =
     map (\<lambda>x. Num (x * 50)) (flat (vertices data)) @
     replicate (pad3 (length (flat (vertices data)))) NaN"
  "index_array (createGeometry data) =
     map Some (flat (indices data)) @ replicate (pad3 (length (flat (indices data)))) None"
  "array (color (createGeometry data)) =
     concat (replicate ((length (flat (vertices data)) + 2) div 3) [Num 1, Num 1, Num 1])"
  "itemSize (position (createGeometry data)) = 3" "itemSize (color (createGeometry data)) = 3"
  "count (position (createGeometry data)) = (length (flat (vertices data)) + 2) div 3"
proof -
  show "array (position (createGeometry data)) =
     map (\<lambda>x. Num (x * 50)) (flat (vertices data)) @
     replicate (pad3 (length (flat (vertices data)))) NaN"
    using group3_concat[of times50 "flat (vertices data)"]
    by (simp add: createGeometry_def Float32BufferAttribute_def Let_def)
  then show "count (position (createGeometry data)) = (length (flat (vertices data)) + 2) div 3"
    by (simp add: count_def createGeometry_def Float32BufferAttribute_def Let_def pad3_length)
  show "index_array (createGeometry data) =
     map Some (flat (indices data)) @ replicate (pad3 (length (flat (indices data)))) None"
    using group3_concat[of "\<lambda>x. x" "flat (indices data)"]
    by (simp add: createGeometry_def Let_def)
  show "array (color (createGeometry data)) =
     concat (replicate ((length (flat (vertices data)) + 2) div 3) [Num 1, Num 1, Num 1])"
    by (simp add: createGeometry_def Float32BufferAttribute_def Let_def Color_white_def
        map_replicate_const group3_length)
  show "itemSize (position (createGeometry data)) = 3" "itemSize (color (createGeometry data)) = 3"
    by (simp_all add: createGeometry_def Float32BufferAttribute_def Let_def)
qed

lemma concat3_nth_aux:
  assumes "j < length xs" "k < 3"
  shows "concat (map (\<lambda>t. [f t, g t, h t]) xs) ! (j * 3 + k) = [f (xs ! j), g (xs ! j), h (xs ! j)] ! k"
  using assms
proof (induction xs arbitrary: j)
  case Nil
  then show ?case by simp
next
  case (Cons t ts)
  show ?case
  proof (cases j)
    case 0
    from Cons.prems(2) have "k = 0 \<or> k = 1 \<or> k = 2" by linarith
    with 0 show ?thesis by auto
  next
    case (Suc i)
    with Cons.prems have "i < length ts" by simp
    from Cons.IH[OF this Cons.prems(2)] Suc show ?thesis by simp
  qed
qed

lemma concat3_nth:
  assumes "j < length xs"
  shows "concat (map (\<lambda>t. [f t, g t, h t]) xs) ! (j * 3) = f (xs ! j)"
    "concat (map (\<lambda>t. [f t, g t, h t]) xs) ! (j * 3 + 1) = g (xs ! j)"
    "concat (map (\<lambda>t. [f t, g t, h t]) xs) ! (j * 3 + 2) = h (xs ! j)"
  using concat3_nth_aux[OF assms, of 0 f g h] concat3_nth_aux[OF assms, of 1 f g h]
    concat3_nth_aux[OF assms, of 2 f g h]
  by simp_all

lemma concat3_length: "length (concat (map (\<lambda>t. [f t, g t, h t]) xs)) = 3 * length xs"
  by (induction xs) simp_all

text \<open>A list of whole triples read triple by triple is the list itself.\<close>

lemma concat3_id:
  assumes "length a = 3 * m"
  shows "concat (map (\<lambda>j. [a ! (j * 3), a ! (j * 3 + 1), a ! (j * 3 + 2)]) [0 ..< m]) = a"
proof (rule nth_equalityI)
  show "length (concat (map (\<lambda>j. [a ! (j * 3), a ! (j * 3 + 1), a ! (j * 3 + 2)]) [0 ..< m])) =
      length a"
    by (simp add: concat3_length assms)
next
  fix n
  assume "n < length (concat (map (\<lambda>j. [a ! (j * 3), a ! (j * 3 + 1), a ! (j * 3 + 2)]) [0 ..< m]))"
  then have n: "n < 3 * m" by (simp add: concat3_length)
  define q where "q = n div 3"
  have j: "q < length [0 ..< m]" using n by (simp add: q_def)
  have "n = q * 3 \<or> n = q * 3 + 1 \<or> n = q * 3 + 2"
    unfolding q_def by presburger
  then consider "n = q * 3" | "n = q * 3 + 1" | "n = q * 3 + 2"
    by blast
  then show "concat (map (\<lambda>j. [a ! (j * 3), a ! (j * 3 + 1), a ! (j * 3 + 2)]) [0 ..< m]) ! n =
      a ! n"
  proof cases
    case 1
    from concat3_nth(1)[OF j, of "\<lambda>j. a ! (j * 3)" "\<lambda>j. a ! (j * 3 + 1)" "\<lambda>j. a ! (j * 3 + 2)"]
    show ?thesis unfolding 1 using j by simp
  next
    case 2
    from concat3_nth(2)[OF j, of "\<lambda>j. a ! (j * 3)" "\<lambda>j. a ! (j * 3 + 1)" "\<lambda>j. a ! (j * 3 + 2)"]
    show ?thesis unfolding 2 using j by simp
  next
    case 3
    from concat3_nth(3)[OF j, of "\<lambda>j. a ! (j * 3)" "\<lambda>j. a ! (j * 3 + 1)" "\<lambda>j. a ! (j * 3 + 2)"]
    show ?thesis unfolding 3 using j by simp
  qed
qed


text \<open>\<open>createPoints\<close>: one point per vertex of the mesh, at the vertex's position
  (\<open>z || 0\<close> for the last coordinate), all in the unselected point colour.\<close>

lemma createPoints_holds:
  fixes data :: MeshSnapshot
  defines "v \<equiv> flat (vertices data)"
  defines "m \<equiv> (length (flat (vertices data)) + 2) div 3"
  shows "\<exists>gp. createPoints (createMesh data) = Some (Points gp 2) \<and>
     itemSize (position gp) = 3 \<and> itemSize (color gp) = 3 \<and> index_array gp = [] \<and>
     count (position gp) = m \<and> count (color gp) = m \<and>
     (\<forall>j<m. getXYZ j (position gp) =
        (case getXYZ j (position (createGeometry data)) of (x, y, z) \<Rightarrow> (x, y, or_zero z))) \<and>
     array (color gp) = concat (replicate m [Num 0, Num (128 / 255), Num 1]) \<and>
     (length v mod 3 = 0 \<longrightarrow> array (position gp) = map (\<lambda>x. Num (x * 50)) v)"
proof -
  let ?pos = "position (createGeometry data)"
  let ?a = "array ?pos"
  let ?pp = "concat (map (\<lambda>i. [?a ! (i * 3), ?a ! (i * 3 + 1), or_zero (?a ! (i * 3 + 2))]) [0 ..< m])"
  let ?cc = "concat (replicate m [Num 0, Num (128 / 255), Num 1])"
  let ?gp = "\<lparr>index_array = [], position = Float32BufferAttribute ?pp 3,
    color = Float32BufferAttribute ?cc 3, disposed = False\<rparr>"
  have cnt: "count ?pos = m" and is3: "itemSize ?pos = 3"
    by (simp_all add: createGeometry_holds m_def)
  have pp: "concat (map (\<lambda>(x, y, z). [x, y, or_zero z])
        (map (\<lambda>i. getXYZ i ?pos) [0 ..< count ?pos])) = ?pp"
    by (simp add: cnt getXYZ_def is3 comp_def)
  have cc: "concat (map (\<lambda>t. case Color_0x0080ff of (r, g, b) \<Rightarrow> [r, g, b])
        (map (\<lambda>i. getXYZ i ?pos) [0 ..< count ?pos])) = ?cc"
    by (simp add: cnt Color_0x0080ff_def comp_def map_replicate_const)
  have cp: "createPoints (createMesh data) = Some (Points ?gp 2)"
    unfolding createMesh_def createPoints.simps Let_def using pp cc by simp
  have lpp: "length ?pp = 3 * m"
    by (simp add: concat3_length)
  have lcc: "length ?cc = 3 * m"
    by (induction m) simp_all
  have per: "getXYZ j (position ?gp) =
      (case getXYZ j ?pos of (x, y, z) \<Rightarrow> (x, y, or_zero z))" if "j < m" for j
  proof -
    from that have j: "j < length [0 ..< m]" by simp
    from concat3_nth[OF j, of "\<lambda>i. ?a ! (i * 3)" "\<lambda>i. ?a ! (i * 3 + 1)"
        "\<lambda>i. or_zero (?a ! (i * 3 + 2))"] that
    show ?thesis
      by (simp add: getXYZ_def Float32BufferAttribute_def is3)
  qed
  have wf: "array (position ?gp) = map (\<lambda>x. Num (x * 50)) v" if "length v mod 3 = 0"
  proof -
    from that have p0: "pad3 (length v) = 0" by (simp add: pad3_def)
    then have a: "?a = map (\<lambda>x. Num (x * 50)) v"
      by (simp add: createGeometry_holds v_def)
    have la: "length ?a = 3 * m"
      using pad3_length[of "length v"] p0 by (simp add: a m_def v_def)
    have "or_zero (?a ! (i * 3 + 2)) = ?a ! (i * 3 + 2)" if "i < m" for i
    proof -
      from that la have "i * 3 + 2 < length ?a" by simp
      then have "i * 3 + 2 < length v" by (simp add: a)
      then show ?thesis by (simp add: a)
    qed
    then have "?pp = concat (map (\<lambda>i. [?a ! (i * 3), ?a ! (i * 3 + 1), ?a ! (i * 3 + 2)]) [0 ..< m])"
      by (intro arg_cong[where f = concat] map_cong) simp_all
    also have "\<dots> = ?a" by (rule concat3_id[OF la])
    finally show ?thesis by (simp add: Float32BufferAttribute_def a)
  qed
  show ?thesis
    using cp per wf lpp lcc
    by (intro exI[of _ ?gp]) (simp add: Float32BufferAttribute_def count_def)
qed

subsection \<open>The handlers' behaviour on the pick variables, the cache and the scene, in any state\<close>

lemma paint_picks:
  assumes "paint p idxs col s = Some s'"
  shows "intersectedFace s' = intersectedFace s \<and> intersectedPoint s' = intersectedPoint s"
  using paint_result[OF assms] by auto

lemma highlightFace_picks:
  assumes "highlightFace col s = Some s'"
  shows "intersectedFace s' = intersectedFace s \<and> intersectedPoint s' = intersectedPoint s"
  using assms paint_picks
  by (auto simp: highlightFace_def split: pick.splits option.splits prod.splits)

lemma highlightPoint_picks:
  assumes "highlightPoint col s = Some s'"
  shows "intersectedFace s' = intersectedFace s \<and> intersectedPoint s' = intersectedPoint s"
  using assms paint_picks
  by (auto simp: highlightPoint_def split: pick.splits option.splits)

lemma when_truthy_picks:
  assumes "when_truthy v (highlightFace col) s = Some s' \<or>
    when_truthy v (highlightPoint col) s = Some s'"
  shows "intersectedFace s' = intersectedFace s \<and> intersectedPoint s' = intersectedPoint s"
  using assms highlightFace_picks[of col s s'] highlightPoint_picks[of col s s']
  by (auto simp: when_truthy_def split: if_splits)

text \<open>A move onto a face sets \<open>intersectedFace\<close> and leaves \<open>intersectedPoint\<close> as it
  was; a move onto a point does the converse.\<close>

lemma onPointerMove_mesh_picks:
  assumes "deref (heap s) (object hit) = Some ob" "type ob = ''Mesh''"
    and "onPointerMove (hit # rest) s = Some s'"
  shows "intersectedFace s' = Intersection hit \<and> intersectedPoint s' = intersectedPoint s"
proof -
  from assms obtain s1 s2 where
    1: "when_truthy (intersectedFace s) (highlightFace Color_white) s = Some s1" and
    2: "when_truthy (intersectedPoint s1) (highlightPoint Color_0x0080ff) s1 = Some s2" and
    3: "highlightFace Color_red (s2\<lparr>intersectedFace := Intersection hit\<rparr>) = Some s'"
    by (auto simp: onPointerMove_def split: bind_splits)
  from when_truthy_picks[OF disjI1[OF 1]] when_truthy_picks[OF disjI2[OF 2]]
    highlightFace_picks[OF 3]
  show ?thesis by simp
qed

lemma onPointerMove_points_picks:
  assumes "deref (heap s) (object hit) = Some ob" "type ob = ''Points''"
    and "onPointerMove (hit # rest) s = Some s'"
  shows "intersectedPoint s' = Intersection hit \<and> intersectedFace s' = intersectedFace s"
proof -
  from assms obtain s1 s2 where
    1: "when_truthy (intersectedPoint s) (highlightPoint Color_0x0080ff) s = Some s1" and
    2: "when_truthy (intersectedFace s1) (highlightFace Color_white) s1 = Some s2" and
    3: "highlightPoint Color_red (s2\<lparr>intersectedPoint := Intersection hit\<rparr>) = Some s'"
    by (auto simp: onPointerMove_def split: bind_splits)
  from when_truthy_picks[OF disjI2[OF 1]] when_truthy_picks[OF disjI1[OF 2]]
    highlightPoint_picks[OF 3]
  show ?thesis by simp
qed

text \<open>A move whose nearest hit is neither a mesh nor a point cloud changes nothing.\<close>

lemma onPointerMove_other_type:
  assumes "deref (heap s) (object hit) = Some ob" "type ob \<noteq> ''Mesh''" "type ob \<noteq> ''Points''"
  shows "onPointerMove (hit # rest) s = Some s"
  using assms by (simp add: onPointerMove_def)

text \<open>The callbacks of the two bulk actions replace the layers and leave the cache as
  it was.\<close>

lemma bulk_callbacks_keep_cache:
  assumes "layers_live s"
  shows "\<exists>s'. tesselate_then data s = Some s' \<and> resetDome_then data s = Some s' \<and>
    cacheVertices s' = cacheVertices s \<and> cacheIndices s' = cacheIndices s \<and>
    mesh_object s' = Some (createMesh data)"
  using replace_layers_live[OF assms, of data]
  by (auto simp: tesselate_then_def resetDome_then_def mesh_object_def)

text \<open>After a replacement the new mesh is a child of the scene, whatever \<open>showFaces\<close>
  says.\<close>

lemma attach_keeps: "m \<in> set children \<Longrightarrow> m \<noteq> p \<Longrightarrow> m \<in> set (attach c p children)"
  by (simp add: attach_def)

lemma replaced_mesh_attached:
  assumes "layers_live s"
  shows "\<exists>s'. replace_layers data s = Some s' \<and> mesh s' \<in> set (scene s')"
proof -
  from replace_layers_live[OF assms, of data] obtain s' where
    r: "replace_layers data s = Some s'" "mesh s' = length (heap s)"
      "line s' = Suc (length (heap s))" "points s' = Suc (Suc (length (heap s)))"
      "scene s' = attach (showPoints (params s)) (points s')
         (attach (showEdges (params s)) (line s')
           (attach True (mesh s')
             (remove1 (points s) (remove1 (line s) (remove1 (mesh s) (scene s))))))"
    by blast
  let ?sc = "remove1 (points s) (remove1 (line s) (remove1 (mesh s) (scene s)))"
  have a1: "mesh s' \<in> set (attach True (mesh s') ?sc)"
    by (simp add: attach_def)
  have a2: "mesh s' \<in> set (attach (showEdges (params s)) (line s') (attach True (mesh s') ?sc))"
    using attach_keeps[OF a1, of "line s'"] r(2,3) by simp
  have "mesh s' \<in> set (scene s')"
    unfolding r(5) using attach_keeps[OF a2, of "points s'"] r(2,4) by simp
  with r(1) show ?thesis by blast
qed

subsection \<open>Evaluating the model on the examples\<close>

lemma option_bind_weak_cong: "m = m' \<Longrightarrow> Option.bind m f = Option.bind m' f"
  by simp

lemma setXYZ_eval:
  "setXYZ idx (x, y, z) \<lparr>array = xs, itemSize = n, version = v\<rparr> =
     \<lparr>array = typed_set (js_plus (js_times idx (of_nat n)) 2) z
        (typed_set (js_plus (js_times idx (of_nat n)) 1) y
          (typed_set (js_plus (js_times idx (of_nat n)) 0) x xs)), itemSize = n, version = v\<rparr>"
  by (simp add: setXYZ_def Let_def)

lemma needsUpdate_true_eval:
  "needsUpdate_true \<lparr>array = xs, itemSize = n, version = v\<rparr> =
     \<lparr>array = xs, itemSize = n, version = Suc v\<rparr>"
  by (simp add: needsUpdate_true_def)

lemmas model_defs = start4_def init_def createMesh_def createGeometry_def dome3_def dome4_def
  Float32BufferAttribute_def Color_white_def Color_0x0080ff_def Color_red_def count_def getXYZ_def
  onPointerMove_def onClick_def when_truthy_def highlightFace_def highlightPoint_def
  highlightPointNeighbour_def paint_def deref_def setXYZ_eval typed_set.simps js_int_def pad3_def needsUpdate_true_eval
  face_hit_def point_hit_def line_hit_def showPoints_onChange_def showEdges_onChange_def
  showFaces_onChange_def scene_add_def scene_remove_def set_mode_def set_searchDistance_def
  pointSize_onChange_def set_points_size_def run_callback_def tesselate_then_def resetDome_then_def
  faceselective_then_def vertexselective_then_def replace_layers_def geometry_dispose_def alloc_def
  color_version_def color_at_def color_count_def mesh_object_def points_object_def face0_def tessellate4_def
  search4_def hover4_def Let_def

lemma init_dome4: "init dome4 = Some start4"
  by (simp add: model_defs)

lemma hover4_run: "onPointerMove [face0] start4 = Some hover4"
  by (simp add: model_defs)

section \<open>The claims\<close>

text \<open>
  Claim C1 says that \<open>intersectedFace\<close> and \<open>intersectedPoint\<close> are never both
  non-null, a transition that makes a face hot clearing the point reference. The branch
  of \<open>onPointerMove\<close> for a mesh repaints the referenced point with the unselected
  colour but does not assign \<open>intersectedPoint\<close>; only the branch for no intersection
  sets both variables to \<open>null\<close>. On the start state of \<open>dome4\<close> with the points shown,
  a move onto point 0 followed by a move onto face 0 leaves both variables holding an
  intersection record (point 0 is blue again), while a move onto nothing after the
  point clears the point reference.
\<close>

theorem C1_point_then_face_leaves_both_picks:
  "init dome4 = Some start4 \<and>
   map_option intersectedFace
     (run [ShowPoints True, PointerMove [point_hit 3 0], PointerMove [face0]] start4) =
     Some (Intersection face0) \<and>
   map_option intersectedPoint
     (run [ShowPoints True, PointerMove [point_hit 3 0], PointerMove [face0]] start4) =
     Some (Intersection (point_hit 3 0)) \<and>
   map_option (color_at 3 0)
     (run [ShowPoints True, PointerMove [point_hit 3 0], PointerMove [face0]] start4) =
     Some (Some Color_0x0080ff) \<and>
   map_option intersectedPoint
     (run [ShowPoints True, PointerMove [point_hit 3 0], PointerMove []] start4) = Some Null"
  by (simp add: model_defs upt_rec)

text \<open>
  Claim C2 says that the cache equals the response after every mesh-shaped response,
  the two bulk actions included. The callbacks of \<open>/faceselective\<close> and
  \<open>/vertexselective\<close> assign \<open>cacheVertices\<close> and \<open>cacheIndices\<close>; the callbacks of
  "tesselate all" and "reset dome" run the same replacement without the two
  assignments. After a selective response \<open>dome3\<close> and a "reset dome" response
  \<open>dome4\<close> the cache still holds \<open>dome3\<close> while the mesh shown is built from
  \<open>dome4\<close>; after a "tesselate all" response on the start state the cache is still
  \<open>null\<close>.
\<close>

theorem C2_bulk_response_leaves_cache:
  "init dome4 = Some start4 \<and>
   map_option cacheVertices
     (run [Response FaceselectiveThen (MeshData dome3), Response ResetDomeThen (MeshData dome4)]
        start4) = Some (CArray (vertices dome3)) \<and>
   map_option cacheIndices
     (run [Response FaceselectiveThen (MeshData dome3), Response ResetDomeThen (MeshData dome4)]
        start4) = Some (CArray (indices dome3)) \<and>
   map_option mesh_object
     (run [Response FaceselectiveThen (MeshData dome3), Response ResetDomeThen (MeshData dome4)]
        start4) = Some (Some (createMesh dome4)) \<and>
   map_option cacheVertices (run [Response TesselateThen (MeshData dome3)] start4) = Some CNull \<and>
   map_option mesh_object (run [Response TesselateThen (MeshData dome3)] start4) =
     Some (Some (createMesh dome3))"
  by (simp add: model_defs upt_rec cong: option_bind_weak_cong let_weak_cong)

text \<open>
  Claim C3. In a state \<open>s\<close> the program can reach, a click whose nearest intersection
  is face \<open>n\<close> of a mesh, while the mode is \<open>tessellate\<close>, makes exactly one request: a
  POST to \<open>/faceselective\<close> whose body is
  \<open>{index: n, vertices: cacheVertices, indices: cacheIndices}\<close>, with the values the
  cache holds at the click. When the response \<open>data\<close> arrives, in whatever state \<open>s'\<close>
  the events since the click have led to, the callback returns; afterwards the cache is
  \<open>data.vertices\<close> and \<open>data.indices\<close>, \<open>mesh\<close> is \<open>createMesh(data)\<close>, \<open>line\<close> is
  \<open>createLine(mesh)\<close> and \<open>points\<close> is \<open>createPoints(mesh)\<close> with the configured
  point size. What these three objects hold, with \<open>V = data.vertices.flat()\<close>,
  \<open>I = data.indices.flat()\<close> and \<open>m\<close> the number of started triples of \<open>V\<close>:

    \<^item> the position array of the mesh is \<open>V\<close> with every entry multiplied by 50, and its
      index is \<open>I\<close>; the loops of \<open>createGeometry\<close> read three entries at a time, so a
      length that is no multiple of three is filled up, with \<open>NaN\<close> in the positions and
      \<open>undefined\<close> in the index; its colour array is white for each of the \<open>m\<close> vertices;
    \<^item> the wireframe is built on the geometry of the mesh;
    \<^item> the point cloud has \<open>m\<close> vertices, vertex \<open>j\<close> at the position of vertex \<open>j\<close> of
      the mesh (a \<open>NaN\<close> third coordinate replaced by 0), each coloured \<open>0x0080ff\<close>; when the
      length of \<open>V\<close> is a multiple of three its position array is \<open>V\<close> multiplied by 50.
\<close>

theorem C3_face_click_tessellate:
  assumes "init d0 = Some s0" and "run es s0 = Some s"
    and "deref (heap s) (object hit) = Some ob" and "type ob = ''Mesh''"
    and "faceIndex hit = Some n"
    and "mode (params s) = ''tessellate''"
    and "run es' s = Some s'"
  shows "onClick (hit # rest) s =
      Some [\<lparr>url = ''https://geodesic-dome.herokuapp.com/faceselective'', http_method = ''POST'',
             body = Json [(''index'', JNum (int n)),
                          (''vertices'', JVertices (cacheVertices s)),
                          (''indices'', JIndices (cacheIndices s))],
             callback = FaceselectiveThen\<rparr>] \<and>
    (\<exists>s'' gm gp. run_callback FaceselectiveThen (MeshData data) s' = Some s'' \<and>
       cacheVertices s'' = CArray (vertices data) \<and> cacheIndices s'' = CArray (indices data) \<and>
       deref (heap s'') (mesh s'') = Some (createMesh data) \<and>
       deref (heap s'') (line s'') = createLine (createMesh data) \<and>
       deref (heap s'') (points s'') =
         createPoints (createMesh data) \<bind> with_size (pointSize (params s')) \<and>
       deref (heap s'') (mesh s'') = Some (Mesh gm) \<and>
       deref (heap s'') (line s'') =
         Some (LineSegments \<lparr>wireframe_of = gm, wireframe_disposed = False\<rparr>) \<and>
       deref (heap s'') (points s'') = Some (Points gp (pointSize (params s'))) \<and>
       array (position gm) =
         map (\<lambda>x. Num (x * 50)) (flat (vertices data)) @
         replicate (pad3 (length (flat (vertices data)))) NaN \<and>
       index_array gm =
         map Some (flat (indices data)) @ replicate (pad3 (length (flat (indices data)))) None \<and>
       array (color gm) =
         concat (replicate ((length (flat (vertices data)) + 2) div 3) [Num 1, Num 1, Num 1]) \<and>
       itemSize (position gm) = 3 \<and> itemSize (color gm) = 3 \<and>
       itemSize (position gp) = 3 \<and> itemSize (color gp) = 3 \<and>
       count (position gp) = (length (flat (vertices data)) + 2) div 3 \<and>
       count (color gp) = (length (flat (vertices data)) + 2) div 3 \<and>
       (\<forall>j<(length (flat (vertices data)) + 2) div 3.
          getXYZ j (position gp) =
            (case getXYZ j (position gm) of (x, y, z) \<Rightarrow> (x, y, or_zero z))) \<and>
       array (color gp) =
         concat (replicate ((length (flat (vertices data)) + 2) div 3)
           [Num 0, Num (128 / 255), Num 1]) \<and>
       (length (flat (vertices data)) mod 3 = 0 \<longrightarrow>
          array (position gp) = map (\<lambda>x. Num (x * 50)) (flat (vertices data))))"
proof -
  have click: "onClick (hit # rest) s =
      Some [\<lparr>url = ''https://geodesic-dome.herokuapp.com/faceselective'', http_method = ''POST'',
             body = Json [(''index'', JNum (int n)),
                          (''vertices'', JVertices (cacheVertices s)),
                          (''indices'', JIndices (cacheIndices s))],
             callback = FaceselectiveThen\<rparr>]"
    using assms(3-6) by (simp add: onClick_def)
  let ?c = "s'\<lparr>cacheVertices := CArray (vertices data), cacheIndices := CArray (indices data)\<rparr>"
  from assms(1,2,7) have "run (es @ es') s0 = Some s'"
    by (simp add: run_append)
  from reachable_inv(1)[OF assms(1) this] have "layers_live ?c"
    by (simp add: layers_live_def)
  from replace_layers_live[OF this, of data] obtain s'' where
    r: "replace_layers data ?c = Some s''"
      "cacheVertices s'' = CArray (vertices data)" "cacheIndices s'' = CArray (indices data)"
      "deref (heap s'') (mesh s'') = Some (createMesh data)"
      "deref (heap s'') (line s'') = createLine (createMesh data)"
      "deref (heap s'') (points s'') =
         createPoints (createMesh data) \<bind> with_size (pointSize (params s'))"
    by auto
  from createPoints_holds[of data] obtain gp where
    gp: "createPoints (createMesh data) = Some (Points gp 2)"
      "itemSize (position gp) = 3" "itemSize (color gp) = 3"
      "count (position gp) = (length (flat (vertices data)) + 2) div 3"
      "count (color gp) = (length (flat (vertices data)) + 2) div 3"
      "\<forall>j<(length (flat (vertices data)) + 2) div 3.
          getXYZ j (position gp) =
            (case getXYZ j (position (createGeometry data)) of (x, y, z) \<Rightarrow> (x, y, or_zero z))"
      "array (color gp) =
         concat (replicate ((length (flat (vertices data)) + 2) div 3)
           [Num 0, Num (128 / 255), Num 1])"
      "length (flat (vertices data)) mod 3 = 0 \<longrightarrow>
          array (position gp) = map (\<lambda>x. Num (x * 50)) (flat (vertices data))"
    by (elim exE conjE) (rule that)
  have cb: "run_callback FaceselectiveThen (MeshData data) s' = Some s''"
    using r(1) by (simp add: run_callback_def faceselective_then_def)
  have m: "deref (heap s'') (mesh s'') = Some (Mesh (createGeometry data))"
    using r(4) by (simp add: createMesh_def)
  have l: "deref (heap s'') (line s'') =
      Some (LineSegments \<lparr>wireframe_of = createGeometry data, wireframe_disposed = False\<rparr>)"
    using r(5) by (simp add: createLine_createMesh)
  have p: "deref (heap s'') (points s'') = Some (Points gp (pointSize (params s')))"
    using r(6) gp(1) by simp
  show ?thesis
    unfolding click
    using cb r(2-6) m l p gp(2-8) createGeometry_holds(1-5)[of data]
    by (intro conjI refl exI[of _ s''] exI[of _ "createGeometry data"] exI[of _ gp]) simp_all
qed

text \<open>
  The theorem at work: tessellate mode on the start state of \<open>dome4\<close>, a click on face
  0, the pointer moving on the face before the response \<open>dome3\<close> (one triangle) arrives.
\<close>

theorem C3_face_click_tessellate_witness:
  "init dome4 = Some start4 \<and> run [SetMode ''tessellate''] start4 = Some tessellate4 \<and>
   deref (heap tessellate4) (object face0) = Some (createMesh dome4) \<and>
   type (createMesh dome4) = ''Mesh'' \<and> faceIndex face0 = Some 0 \<and>
   mode (params tessellate4) = ''tessellate'' \<and>
   run [PointerMove [face0]] tessellate4 = Some (set_mode ''tessellate'' hover4) \<and>
   onClick [face0] tessellate4 =
      Some [\<lparr>url = ''https://geodesic-dome.herokuapp.com/faceselective'', http_method = ''POST'',
             body = Json [(''index'', JNum 0),
                          (''vertices'', JVertices (cacheVertices tessellate4)),
                          (''indices'', JIndices (cacheIndices tessellate4))],
             callback = FaceselectiveThen\<rparr>] \<and>
    (\<exists>s'' gm gp.
       run_callback FaceselectiveThen (MeshData dome3) (set_mode ''tessellate'' hover4) = Some s'' \<and>
       cacheVertices s'' = CArray (vertices dome3) \<and> cacheIndices s'' = CArray (indices dome3) \<and>
       deref (heap s'') (mesh s'') = Some (Mesh gm) \<and>
       deref (heap s'') (line s'') =
         Some (LineSegments \<lparr>wireframe_of = gm, wireframe_disposed = False\<rparr>) \<and>
       deref (heap s'') (points s'') = Some (Points gp 2) \<and>
       array (position gm) =
         [Num 0, Num 0, Num 50, Num 50, Num 0, Num 0, Num 0, Num 50, Num 0] \<and>
       index_array gm = [Some 0, Some 1, Some 2] \<and>
       array (color gm) = [Num 1, Num 1, Num 1, Num 1, Num 1, Num 1, Num 1, Num 1, Num 1] \<and>
       count (position gp) = 3 \<and> count (color gp) = 3 \<and>
       array (position gp) =
         [Num 0, Num 0, Num 50, Num 50, Num 0, Num 0, Num 0, Num 50, Num 0] \<and>
       array (color gp) =
         [Num 0, Num (128 / 255), Num 1, Num 0, Num (128 / 255), Num 1,
          Num 0, Num (128 / 255), Num 1])"
proof -
  have h2: "run [SetMode ''tessellate''] start4 = Some tessellate4"
    by (simp add: tessellate4_def)
  have h3: "deref (heap tessellate4) (object face0) = Some (createMesh dome4)"
    by (simp add: model_defs)
  have h4: "type (createMesh dome4) = ''Mesh''"
    by (simp add: createMesh_def)
  have h4': "faceIndex face0 = Some 0"
    by (simp add: face0_def face_hit_def)
  have h5: "mode (params tessellate4) = ''tessellate''"
    by (simp add: tessellate4_def set_mode_def)
  have h6: "run [PointerMove [face0]] tessellate4 = Some (set_mode ''tessellate'' hover4)"
    by (simp add: model_defs)
  have sz: "pointSize (params (set_mode ''tessellate'' hover4)) = 2"
    by (simp add: model_defs)
  have d: "flat (vertices dome3) = [0, 0, 1, 1, 0, 0, 0, 1, 0]"
    "flat (indices dome3) = [0, 1, 2]"
    by (simp_all add: dome3_def)
  have r: "replicate 3 [Num 0, Num (128 / 255), Num 1] =
      [[Num 0, Num (128 / 255), Num 1], [Num 0, Num (128 / 255), Num 1],
       [Num 0, Num (128 / 255), Num 1]]"
    "replicate 3 [Num 1, Num 1, Num 1] =
      [[Num 1, Num 1, Num 1], [Num 1, Num 1, Num 1], [Num 1, Num 1, Num 1]]"
    by (simp_all add: numeral_3_eq_3)
  from C3_face_click_tessellate[OF init_dome4 h2 h3 h4 h4' h5 h6, of "[]" dome3]
  obtain s'' gm gp where
    c: "onClick [face0] tessellate4 =
      Some [\<lparr>url = ''https://geodesic-dome.herokuapp.com/faceselective'', http_method = ''POST'',
             body = Json [(''index'', JNum (int 0)),
                          (''vertices'', JVertices (cacheVertices tessellate4)),
                          (''indices'', JIndices (cacheIndices tessellate4))],
             callback = FaceselectiveThen\<rparr>]"
    and e: "run_callback FaceselectiveThen (MeshData dome3) (set_mode ''tessellate'' hover4) =
        Some s''"
      "cacheVertices s'' = CArray (vertices dome3)" "cacheIndices s'' = CArray (indices dome3)"
      "deref (heap s'') (mesh s'') = Some (Mesh gm)"
      "deref (heap s'') (line s'') =
         Some (LineSegments \<lparr>wireframe_of = gm, wireframe_disposed = False\<rparr>)"
      "deref (heap s'') (points s'') =
         Some (Points gp (pointSize (params (set_mode ''tessellate'' hover4))))"
      "array (position gm) =
         map (\<lambda>x. Num (x * 50)) (flat (vertices dome3)) @
         replicate (pad3 (length (flat (vertices dome3)))) NaN"
      "index_array gm =
         map Some (flat (indices dome3)) @ replicate (pad3 (length (flat (indices dome3)))) None"
      "array (color gm) =
         concat (replicate ((length (flat (vertices dome3)) + 2) div 3) [Num 1, Num 1, Num 1])"
      "count (position gp) = (length (flat (vertices dome3)) + 2) div 3"
      "count (color gp) = (length (flat (vertices dome3)) + 2) div 3"
      "array (color gp) =
         concat (replicate ((length (flat (vertices dome3)) + 2) div 3)
           [Num 0, Num (128 / 255), Num 1])"
      "length (flat (vertices dome3)) mod 3 = 0 \<longrightarrow>
          array (position gp) = map (\<lambda>x. Num (x * 50)) (flat (vertices dome3))"
    by (elim exE conjE) (rule that)
  have g: "array (position gm) =
         [Num 0, Num 0, Num 50, Num 50, Num 0, Num 0, Num 0, Num 50, Num 0]"
      "index_array gm = [Some 0, Some 1, Some 2]"
      "array (color gm) = [Num 1, Num 1, Num 1, Num 1, Num 1, Num 1, Num 1, Num 1, Num 1]"
      "count (position gp) = 3" "count (color gp) = 3"
      "array (position gp) =
         [Num 0, Num 0, Num 50, Num 50, Num 0, Num 0, Num 0, Num 50, Num 0]"
      "array (color gp) =
         [Num 0, Num (128 / 255), Num 1, Num 0, Num (128 / 255), Num 1,
          Num 0, Num (128 / 255), Num 1]"
    using e(7-13) by (simp_all add: d r pad3_def)
  show ?thesis
    using init_dome4 h2 h3 h4 h4' h5 h6 c e(1-6) g
    by (intro conjI exI[of _ s''] exI[of _ gm] exI[of _ gp]) (simp_all add: sz)
qed

text \<open>
  Claim C4, as amended. The claim says that both pick variables are \<open>null\<close> after the
  layers have been replaced. None of the four mesh-returning callbacks assigns
  \<open>intersectedFace\<close> or \<open>intersectedPoint\<close>. What holds instead: in every reachable
  state each of the four callbacks returns, and both variables have the values they had
  before the response.
\<close>

theorem C4_mesh_response_keeps_picks:
  assumes "init d0 = Some s0" and "run es s0 = Some s"
    and "cb = TesselateThen \<or> cb = ResetDomeThen \<or> cb = FaceselectiveThen \<or>
         cb = VertexselectiveThen"
  shows "\<exists>s'. run_callback cb (MeshData data) s = Some s' \<and>
     intersectedFace s' = intersectedFace s \<and> intersectedPoint s' = intersectedPoint s"
proof -
  let ?c = "s\<lparr>cacheVertices := CArray (vertices data), cacheIndices := CArray (indices data)\<rparr>"
  have live: "layers_live s" by (rule reachable_inv(1)[OF assms(1,2)])
  then have "layers_live ?c" by (simp add: layers_live_def)
  from replace_layers_live[OF this, of data] replace_layers_live[OF live, of data] assms(3)
  show ?thesis
    by (auto simp: run_callback_def faceselective_then_def vertexselective_then_def
        tesselate_then_def resetDome_then_def)
qed

text \<open>
  The theorem at work, with the pointer resting on face 0 when the response arrives.
\<close>

theorem C4_mesh_response_keeps_picks_witness:
  "init dome4 = Some start4 \<and> run [PointerMove [face0]] start4 = Some hover4 \<and>
   (FaceselectiveThen = TesselateThen \<or> FaceselectiveThen = ResetDomeThen \<or>
    FaceselectiveThen = FaceselectiveThen \<or> FaceselectiveThen = VertexselectiveThen) \<and>
   (\<exists>s'. run_callback FaceselectiveThen (MeshData dome3) hover4 = Some s' \<and>
     intersectedFace s' = intersectedFace hover4 \<and>
     intersectedPoint s' = intersectedPoint hover4)"
proof -
  have h2: "run [PointerMove [face0]] start4 = Some hover4"
    by (simp add: hover4_run)
  have h3: "FaceselectiveThen = TesselateThen \<or> FaceselectiveThen = ResetDomeThen \<or>
    FaceselectiveThen = FaceselectiveThen \<or> FaceselectiveThen = VertexselectiveThen"
    by simp
  from C4_mesh_response_keeps_picks[OF init_dome4 h2 h3, of dome3] init_dome4 h2 h3
  show ?thesis by blast
qed

text \<open>
  The claim as stated fails: tessellate mode, the pointer on face 0, a click on it and
  the response \<open>dome3\<close>. Afterwards \<open>intersectedFace\<close> still holds the intersection
  record of the click, which refers to object 1, the replaced mesh; the mesh shown is
  object 4.
\<close>

theorem C4_picks_survive_replacement:
  "map_option intersectedFace
     (run [SetMode ''tessellate'', PointerMove [face0], Click [face0],
           Response FaceselectiveThen (MeshData dome3)] start4) =
     Some (Intersection face0) \<and>
   map_option mesh
     (run [SetMode ''tessellate'', PointerMove [face0], Click [face0],
           Response FaceselectiveThen (MeshData dome3)] start4) = Some 4 \<and>
   object face0 = 1"
  by (simp add: model_defs cong: option_bind_weak_cong let_weak_cong)

text \<open>
  Claim C5 says that a pointer move onto the face that is already hot writes no colour.
  The guard of the mesh branch is \<open>intersectedFace != objects[0].object\<close>: it compares
  the stored intersection record with the mesh object, which are never the same object,
  so the branch body runs on every move. With the pointer on face 0 of the start mesh
  (one \<open>needsUpdate\<close> so far), a second move onto the same face calls \<open>highlightFace\<close>
  twice more, white and then red: the version counter of the mesh's colour attribute
  goes from 1 to 3.
\<close>

theorem C5_same_face_is_repainted:
  "onPointerMove [face0] start4 = Some hover4 \<and>
   intersectedFace hover4 = Intersection face0 \<and>
   color_version 1 hover4 = Some 1 \<and>
   map_option (color_version 1) (onPointerMove [face0] hover4) = Some (Some 3) \<and>
   map_option intersectedFace (onPointerMove [face0] hover4) = Some (Intersection face0)"
  by (simp add: model_defs upt_rec)

text \<open>
  Claim C6 says that a move whose nearest intersected object is neither a mesh nor a
  point cloud is handled like a move with no intersection. In \<open>onPointerMove\<close> the
  clearing branch, under the comment "Mouse isn't on face or point", is the \<open>else\<close> of
  \<open>objects.length > 0\<close>: a wireframe hit enters the outer \<open>if\<close>, matches neither type
  test, and nothing runs. With the edges shown and face 0 hot, a move onto the wireframe
  returns the state unchanged (the face stays referenced and red), while a move onto
  nothing clears the reference and repaints the face white.
\<close>

theorem C6_wireframe_hit_changes_nothing:
  "map_option (\<lambda>s. line s \<in> set (scene s)) (run [ShowEdges True, PointerMove [face0]] start4) =
     Some True \<and>
   map_option (\<lambda>s. onPointerMove [line_hit 2 0] s = Some s)
     (run [ShowEdges True, PointerMove [face0]] start4) = Some True \<and>
   map_option intersectedFace
     (run [ShowEdges True, PointerMove [face0], PointerMove [line_hit 2 0]] start4) =
     Some (Intersection face0) \<and>
   map_option (color_at 1 0)
     (run [ShowEdges True, PointerMove [face0], PointerMove [line_hit 2 0]] start4) =
     Some (Some Color_red) \<and>
   map_option intersectedFace
     (run [ShowEdges True, PointerMove [face0], PointerMove []] start4) = Some Null \<and>
   map_option (color_at 1 0)
     (run [ShowEdges True, PointerMove [face0], PointerMove []] start4) =
     Some (Some Color_white)"
  by (simp add: model_defs upt_rec)

text \<open>
  Claim C7, as amended. The claim says that before any response the cache reads as a
  default snapshot, so that the first face click in tessellate mode sends arrays. The
  module initialises \<open>cacheVertices\<close> and \<open>cacheIndices\<close> to \<open>null\<close>. What holds
  instead: in every state reached from the start state by events none of which is a
  mesh response, both variables are \<open>null\<close>, and a face click in tessellate mode sends
  the body \<open>{index: faceIndex, vertices: null, indices: null}\<close>.
\<close>

theorem C7_first_face_click_sends_null:
  assumes "init d0 = Some s0" and "run es s0 = Some s"
    and "list_all (\<lambda>e. \<not> mesh_response e) es"
    and "deref (heap s) (object hit) = Some ob" and "type ob = ''Mesh''"
    and "mode (params s) = ''tessellate''"
  shows "cacheVertices s = CNull \<and> cacheIndices s = CNull \<and>
    onClick (hit # rest) s =
      Some [\<lparr>url = ''https://geodesic-dome.herokuapp.com/faceselective'', http_method = ''POST'',
             body = Json [(''index'', num_or_undefined (faceIndex hit)),
                          (''vertices'', JVertices CNull), (''indices'', JIndices CNull)],
             callback = FaceselectiveThen\<rparr>]"
proof -
  from run_cache[OF assms(2,3)] init_inv(3,4)[OF assms(1)]
  have c: "cacheVertices s = CNull" "cacheIndices s = CNull" by simp_all
  with assms(4-6) show ?thesis by (simp add: onClick_def)
qed

text \<open>
  The theorem at work: the pointer moves onto face 0 and tessellate mode is selected.
\<close>

theorem C7_first_face_click_sends_null_witness:
  "init dome4 = Some start4 \<and>
   run [PointerMove [face0], SetMode ''tessellate''] start4 = Some (set_mode ''tessellate'' hover4) \<and>
   list_all (\<lambda>e. \<not> mesh_response e) [PointerMove [face0], SetMode ''tessellate''] \<and>
   deref (heap (set_mode ''tessellate'' hover4)) (object face0) = mesh_object hover4 \<and>
   map_option type (mesh_object hover4) = Some ''Mesh'' \<and>
   mode (params (set_mode ''tessellate'' hover4)) = ''tessellate'' \<and>
   cacheVertices (set_mode ''tessellate'' hover4) = CNull \<and>
   cacheIndices (set_mode ''tessellate'' hover4) = CNull \<and>
   onClick [face0] (set_mode ''tessellate'' hover4) =
      Some [\<lparr>url = ''https://geodesic-dome.herokuapp.com/faceselective'', http_method = ''POST'',
             body = Json [(''index'', num_or_undefined (faceIndex face0)),
                          (''vertices'', JVertices CNull), (''indices'', JIndices CNull)],
             callback = FaceselectiveThen\<rparr>]"
proof -
  obtain ob where ob: "mesh_object hover4 = Some ob" "type ob = ''Mesh''"
    by (simp add: model_defs)
  have h2: "run [PointerMove [face0], SetMode ''tessellate''] start4 =
      Some (set_mode ''tessellate'' hover4)"
    by (simp add: hover4_run)
  have h3: "list_all (\<lambda>e. \<not> mesh_response e) [PointerMove [face0], SetMode ''tessellate'']"
    by simp
  have h4: "deref (heap (set_mode ''tessellate'' hover4)) (object face0) = Some ob"
    using ob(1) by (simp add: mesh_object_def set_mode_def) (simp add: model_defs)
  have h6: "mode (params (set_mode ''tessellate'' hover4)) = ''tessellate''"
    by (simp add: set_mode_def)
  from C7_first_face_click_sends_null[OF init_dome4 h2 h3 h4 ob(2) h6, of "[]"]
    init_dome4 h2 h3 h4 ob h6
  show ?thesis by simp
qed

text \<open>
  The claim as stated fails on the start state of \<open>dome4\<close>: the first face click in
  tessellate mode sends \<open>null\<close> for both arrays.
\<close>

theorem C7_first_face_click_body:
  "init dome4 = Some start4 \<and>
   onClick [face0] (set_mode ''tessellate'' start4) =
      Some [\<lparr>url = ''https://geodesic-dome.herokuapp.com/faceselective'', http_method = ''POST'',
             body = Json [(''index'', JNum 0), (''vertices'', JVertices CNull),
                          (''indices'', JIndices CNull)],
             callback = FaceselectiveThen\<rparr>]"
  by (simp add: model_defs)

text \<open>
  Claim C8 says that after a mesh-shaped response the new surface mesh is attached to
  the scene exactly when \<open>showFaces\<close> is true (and the wireframe and the points exactly
  when their toggles are, with the configured point size). The callbacks guard
  \<open>scene.add(line)\<close> and \<open>scene.add(points)\<close> with their toggles but call
  \<open>scene.add(mesh)\<close> unconditionally. With "show faces" switched off (the scene holds
  the camera only), a "tesselate all" response attaches the new mesh, object 4, while
  \<open>showFaces\<close> is still false.
\<close>

theorem C8_hidden_faces_reappear:
  "map_option (\<lambda>s. showFaces (params s))
     (run [ShowFaces False, Response TesselateThen (MeshData dome3)] start4) = Some False \<and>
   map_option scene (run [ShowFaces False] start4) = Some [0] \<and>
   map_option scene (run [ShowFaces False, Response TesselateThen (MeshData dome3)] start4) =
     Some [0, 4] \<and>
   map_option mesh (run [ShowFaces False, Response TesselateThen (MeshData dome3)] start4) =
     Some 4"
  by (simp add: model_defs upt_rec cong: option_bind_weak_cong let_weak_cong)

text \<open>
  Claim C9. In a reachable state \<open>s\<close>, a click whose nearest intersection is point
  \<open>n\<close> of a point cloud, while the mode is \<open>search\<close>, makes one request: a POST to
  \<open>/search\<close> with the body \<open>{index: n, distance: searchDistance}\<close>. When the response
  \<open>{vertices: vs}\<close> arrives in a later state \<open>s'\<close>, the callback returns a state that
  differs from \<open>s'\<close> in the colour attribute of the current \<open>points\<close> object only: the
  cache, the layer variables, the scene, every other object, and the positions of the
  point cloud are as before. In that attribute the slot of vertex \<open>j\<close> is red if \<open>j\<close> is
  among \<open>vs\<close>, and has its old colour otherwise. The entries of the response are
  integers here.
\<close>

theorem C9_search_click_highlights_named:
  assumes "init d0 = Some s0" and "run es s0 = Some s"
    and "deref (heap s) (object hit) = Some ob" and "type ob = ''Points''"
    and "index hit = Some n"
    and "mode (params s) = ''search''"
    and "run es' s = Some s'"
  shows "onClick (hit # rest) s =
      Some [\<lparr>url = ''https://geodesic-dome.herokuapp.com/search'', http_method = ''POST'',
             body = Json [(''index'', JNum (int n)),
                          (''distance'', JNum (searchDistance (params s)))],
             callback = SearchThen\<rparr>] \<and>
    (\<exists>s'' g sz ca. deref (heap s') (points s') = Some (Points g sz) \<and>
       run_callback SearchThen (SearchData (map js_int vs)) s' = Some s'' \<and>
       s'' = s'\<lparr>heap := (heap s')[points s' := Points (g\<lparr>color := ca\<rparr>) sz]\<rparr> \<and>
       cacheVertices s'' = cacheVertices s' \<and> cacheIndices s'' = cacheIndices s' \<and>
       count ca = count (color g) \<and>
       (\<forall>j<count (color g).
          getXYZ j ca = (if int j \<in> set vs then Color_red else getXYZ j (color g))))"
proof -
  have click: "onClick (hit # rest) s =
      Some [\<lparr>url = ''https://geodesic-dome.herokuapp.com/search'', http_method = ''POST'',
             body = Json [(''index'', JNum (int n)),
                          (''distance'', JNum (searchDistance (params s)))],
             callback = SearchThen\<rparr>]"
    using assms(3-6) by (simp add: onClick_def)
  from assms(1,2,7) have "run (es @ es') s0 = Some s'"
    by (simp add: run_append)
  from reachable_inv(2)[OF assms(1) this] obtain g sz where
    g: "deref (heap s') (points s') = Some (Points g sz)" "itemSize (color g) = 3"
    by (auto simp: points_ok_iff)
  let ?ca = "paint_all (map js_int vs) Color_red (color g)"
  have "run_callback SearchThen (SearchData (map js_int vs)) s' =
      Some (s'\<lparr>heap := (heap s')[points s' := Points (g\<lparr>color := ?ca\<rparr>) sz]\<rparr>)"
    by (simp add: run_callback_def search_then_points[OF g(1)])
  moreover have "\<forall>j<count (color g).
      getXYZ j ?ca = (if int j \<in> set vs then Color_red else getXYZ j (color g))"
    using g(2) by (simp add: getXYZ_paint_all)
  ultimately show ?thesis
    unfolding click using g(1)
    by (intro conjI refl exI[of _ g] exI[of _ sz] exI[of _ ?ca]
        exI[of _ "s'\<lparr>heap := (heap s')[points s' := Points (g\<lparr>color := ?ca\<rparr>) sz]\<rparr>"])
      simp_all
qed

text \<open>
  The theorem at work: search mode with the points shown, a click on point 2, and the
  response \<open>[1, 3, 7]\<close> (the point cloud of \<open>dome4\<close> has four vertices).
\<close>

theorem C9_search_click_highlights_named_witness:
  "init dome4 = Some start4 \<and> run [SetMode ''search'', ShowPoints True] start4 = Some search4 \<and>
   deref (heap search4) (object (point_hit 3 2)) = points_object start4 \<and>
   map_option type (points_object start4) = Some ''Points'' \<and>
   index (point_hit 3 2) = Some 2 \<and>
   mode (params search4) = ''search'' \<and>
   run [] search4 = Some search4 \<and>
   onClick [point_hit 3 2] search4 =
      Some [\<lparr>url = ''https://geodesic-dome.herokuapp.com/search'', http_method = ''POST'',
             body = Json [(''index'', JNum 2),
                          (''distance'', JNum (searchDistance (params search4)))],
             callback = SearchThen\<rparr>] \<and>
    (\<exists>s'' g sz ca. deref (heap search4) (points search4) = Some (Points g sz) \<and>
       run_callback SearchThen (SearchData (map js_int [1, 3, 7])) search4 = Some s'' \<and>
       s'' = search4\<lparr>heap := (heap search4)[points search4 := Points (g\<lparr>color := ca\<rparr>) sz]\<rparr> \<and>
       cacheVertices s'' = cacheVertices search4 \<and> cacheIndices s'' = cacheIndices search4 \<and>
       count ca = count (color g) \<and>
       (\<forall>j<count (color g).
          getXYZ j ca = (if int j \<in> set [1, 3, 7] then Color_red else getXYZ j (color g))))"
proof -
  obtain ob where ob: "points_object start4 = Some ob" "type ob = ''Points''"
    by (simp add: model_defs)
  have h2: "run [SetMode ''search'', ShowPoints True] start4 = Some search4"
    by (simp add: search4_def)
  have h3: "deref (heap search4) (object (point_hit 3 2)) = Some ob"
    using ob(1) by (simp add: points_object_def search4_def set_mode_def showPoints_onChange_def
        scene_add_def point_hit_def) (simp add: model_defs)
  have h4: "index (point_hit 3 2) = Some 2"
    by (simp add: point_hit_def)
  have h5: "mode (params search4) = ''search''"
    by (simp add: search4_def set_mode_def showPoints_onChange_def scene_add_def)
  have h6: "run [] search4 = Some search4"
    by simp
  from C9_search_click_highlights_named[OF init_dome4 h2 h3 ob(2) h4 h5 h6, of "[]" "[1, 3, 7]"]
    init_dome4 h2 h3 ob h4 h5 h6
  show ?thesis by simp
qed

text \<open>
  Claim C10, as amended. The claim says that \<open>highlightPointNeighbour\<close> checks no
  bound, that an index outside \<open>[0, vertexCount)\<close> modifies no colour slot of a vertex,
  and that a vertex the response does not name is never altered. The first part holds:
  in a reachable state the function returns for every number, having called
  \<open>setXYZ\<close> with it on the colour attribute of \<open>points\<close>. The other two parts hold for
  integers: the slot of vertex \<open>i\<close> holds the colour afterwards when the integer \<open>i\<close> is
  a vertex, and every other vertex keeps its colour; for an integer below 0 or at least
  the vertex count the three stores fall outside the slots of the vertices and no
  vertex changes colour; after the whole loop of the search callback on a response of
  integers, a vertex the response did not name has its old colour.
\<close>

theorem C10_neighbour_write_confined:
  assumes "init d0 = Some s0" and "run es s0 = Some s"
  shows "\<exists>g sz ca. deref (heap s) (points s) = Some (Points g sz) \<and>
      (\<forall>idx. highlightPointNeighbour idx col s =
        Some (s\<lparr>heap := (heap s)[points s :=
           Points (g\<lparr>color := needsUpdate_true (setXYZ idx col (color g))\<rparr>) sz]\<rparr>)) \<and>
      (\<forall>j<count (color g).
         getXYZ j (setXYZ (js_int i) col (color g)) =
           (if int j = i then col else getXYZ j (color g))) \<and>
      ((i < 0 \<or> int (count (color g)) \<le> i) \<longrightarrow>
         (\<forall>j<count (color g). getXYZ j (setXYZ (js_int i) col (color g)) = getXYZ j (color g))) \<and>
      search_then (map js_int vs) s =
        Some (s\<lparr>heap := (heap s)[points s := Points (g\<lparr>color := ca\<rparr>) sz]\<rparr>) \<and>
      (\<forall>j<count (color g). int j \<notin> set vs \<longrightarrow> getXYZ j ca = getXYZ j (color g))"
proof -
  from reachable_inv(2)[OF assms] obtain g sz where
    g: "deref (heap s) (points s) = Some (Points g sz)" "itemSize (color g) = 3"
    by (auto simp: points_ok_iff)
  let ?ca = "paint_all (map js_int vs) Color_red (color g)"
  have w: "\<forall>j<count (color g).
      getXYZ j (setXYZ (js_int i) col (color g)) = (if int j = i then col else getXYZ j (color g))"
    using g(2) by (auto simp: getXYZ_setXYZ)
  then have out: "(i < 0 \<or> int (count (color g)) \<le> i) \<longrightarrow>
      (\<forall>j<count (color g). getXYZ j (setXYZ (js_int i) col (color g)) = getXYZ j (color g))"
    by auto
  have all: "\<forall>j<count (color g). int j \<notin> set vs \<longrightarrow> getXYZ j ?ca = getXYZ j (color g)"
    using g(2) by (simp add: getXYZ_paint_all)
  have hp: "\<forall>idx. highlightPointNeighbour idx col s =
        Some (s\<lparr>heap := (heap s)[points s :=
           Points (g\<lparr>color := needsUpdate_true (setXYZ idx col (color g))\<rparr>) sz]\<rparr>)"
    using highlightPointNeighbour_points[OF g(1)] by blast
  show ?thesis
    using g(1) hp search_then_points[OF g(1), of "map js_int vs"] w out all
    by (intro exI[of _ g] exI[of _ sz] exI[of _ ?ca]) simp
qed

text \<open>
  The theorem at work on the start state of \<open>dome4\<close> with the points shown: index 7
  and the response \<open>[7, -1, 2]\<close>.
\<close>

theorem C10_neighbour_write_confined_witness:
  "init dome4 = Some start4 \<and> run [ShowPoints True] start4 = Some (showPoints_onChange True start4) \<and>
   (\<exists>g sz ca. deref (heap (showPoints_onChange True start4))
        (points (showPoints_onChange True start4)) = Some (Points g sz) \<and>
      (\<forall>idx. highlightPointNeighbour idx Color_red (showPoints_onChange True start4) =
        Some ((showPoints_onChange True start4)\<lparr>heap :=
           (heap (showPoints_onChange True start4))[points (showPoints_onChange True start4) :=
           Points (g\<lparr>color := needsUpdate_true (setXYZ idx Color_red (color g))\<rparr>) sz]\<rparr>)) \<and>
      (\<forall>j<count (color g).
         getXYZ j (setXYZ (js_int 7) Color_red (color g)) =
           (if int j = 7 then Color_red else getXYZ j (color g))) \<and>
      (((7::int) < 0 \<or> int (count (color g)) \<le> 7) \<longrightarrow>
         (\<forall>j<count (color g).
            getXYZ j (setXYZ (js_int 7) Color_red (color g)) = getXYZ j (color g))) \<and>
      search_then (map js_int [7, - 1, 2]) (showPoints_onChange True start4) =
        Some ((showPoints_onChange True start4)\<lparr>heap :=
           (heap (showPoints_onChange True start4))[points (showPoints_onChange True start4) :=
           Points (g\<lparr>color := ca\<rparr>) sz]\<rparr>) \<and>
      (\<forall>j<count (color g). int j \<notin> set [7, - 1, 2] \<longrightarrow> getXYZ j ca = getXYZ j (color g)))"
proof -
  have h2: "run [ShowPoints True] start4 = Some (showPoints_onChange True start4)"
    by simp
  from C10_neighbour_write_confined[OF init_dome4 h2, of Color_red 7 "[7, - 1, 2]"]
    init_dome4 h2
  show ?thesis by simp
qed

text \<open>
  The claim as stated fails for an entry that is no integer. The point cloud of
  \<open>dome4\<close> has four vertices, all coloured \<open>0x0080ff\<close>, that is \<open>(0, 128/255, 1)\<close>. The
  response \<open>[-1/3]\<close> names no vertex, and its entry lies outside \<open>[0, 4)\<close>. \<open>setXYZ\<close>
  multiplies it by the item size 3 and stores the components of red, \<open>(1, 0, 0)\<close>, at
  the offsets \<open>-1\<close>, 0 and 1: the first store is ignored, the other two overwrite the
  green and the blue component of vertex 0, which becomes \<open>(0, 0, 1)\<close>. The integer
  entry \<open>-1\<close> leaves vertex 0 as it is.
\<close>

theorem C10_fractional_index_alters_unnamed_vertex:
  "map_option (color_count 3) (run [ShowPoints True] start4) = Some (Some 4) \<and>
   map_option (color_at 3 0) (run [ShowPoints True] start4) = Some (Some Color_0x0080ff) \<and>
   map_option (color_at 3 0)
     (run [ShowPoints True, Response SearchThen (SearchData [Num (- 1 / 3)])] start4) =
     Some (Some (Num 0, Num 0, Num 1)) \<and>
   map_option (color_at 3 0)
     (run [ShowPoints True, Response SearchThen (SearchData [js_int (- 1)])] start4) =
     Some (Some Color_0x0080ff)"
  by (simp add: model_defs upt_rec)

text \<open>
  A consequence of the behaviour in C1 and C5 that the colours show. The pointer
  visits point 0 and moves onto face 0; a search response then paints point 0 red; the
  next move, on the same face, paints point 0 blue again, through the point reference
  that was never cleared.
\<close>

lemma same_face_erases_search_highlight:
  "map_option (color_at 3 0)
     (run [ShowPoints True, PointerMove [point_hit 3 0], PointerMove [face0],
           Response SearchThen (SearchData [js_int 0])] start4) = Some (Some Color_red) \<and>
   map_option (color_at 3 0)
     (run [ShowPoints True, PointerMove [point_hit 3 0], PointerMove [face0],
           Response SearchThen (SearchData [js_int 0]), PointerMove [face0]] start4) =
     Some (Some Color_0x0080ff)"
  by (simp add: model_defs upt_rec)

end
